theory Spec2Isabelle
  imports
    Complex_Main
    "HOL-Library.Char_ord"
    "HOL-Library.List_Lexorder"
    "HOL-Library.Product_Lexorder"
begin

section \<open>Python and pandas values\<close>

text \<open>
  The model follows \<^verbatim>\<open>src/python/analysis/model_results_simulation.py\<close>. Every raise of
  the source is a value: \<open>Inl\<close> of a \<open>py_error\<close>. The two faults that the modelled
  code can reach are the \<^verbatim>\<open>IndexError\<close> of \<^verbatim>\<open>.iloc[0]\<close> on an empty selection and the
  \<^verbatim>\<open>KeyError\<close> of a \<^verbatim>\<open>groupby\<close> on a column label the frame does not have.
\<close>

datatype py_error = IndexError | KeyError string

definition bindE :: "py_error + 'a \<Rightarrow> ('a \<Rightarrow> py_error + 'b) \<Rightarrow> py_error + 'b" where
  "bindE m f = (case m of Inl err \<Rightarrow> Inl err | Inr x \<Rightarrow> f x)"

text \<open>A \<^verbatim>\<open>for\<close> loop that appends one record per element; the first raise ends it.\<close>

fun for_each :: "('a \<Rightarrow> py_error + 'b) \<Rightarrow> 'a list \<Rightarrow> py_error + 'b list" where
  "for_each f [] = Inr []"
| "for_each f (x # xs) =
     (case f x of
        Inl err \<Rightarrow> Inl err
      | Inr y \<Rightarrow> (case for_each f xs of Inl err \<Rightarrow> Inl err | Inr ys \<Rightarrow> Inr (y # ys)))"

text \<open>\<^verbatim>\<open>selection.iloc[0]\<close>: the first row, or \<^verbatim>\<open>IndexError\<close> when nothing was selected.\<close>

definition iloc0 :: "'a list \<Rightarrow> py_error + 'a" where
  "iloc0 xs = (case xs of [] \<Rightarrow> Inl IndexError | x # _ \<Rightarrow> Inr x)"

text \<open>\<^verbatim>\<open>Series.unique()\<close> keeps the order of first occurrence; \<^verbatim>\<open>nunique()\<close> counts.\<close>

definition unique :: "'a list \<Rightarrow> 'a list" where
  "unique xs = rev (remdups (rev xs))"

definition nunique :: "'a list \<Rightarrow> nat" where
  "nunique xs = length (remdups xs)"

text \<open>
  A float64 cell. Finite values are taken as exact rationals (no binary rounding error);
  NaN and the two infinities are kept, since the source's guards are about them.
\<close>

datatype pyfloat = Num rat | NaN | PosInf | NegInf

fun fl_neg :: "pyfloat \<Rightarrow> pyfloat" where
  "fl_neg (Num a) = Num (- a)"
| "fl_neg NaN = NaN"
| "fl_neg PosInf = NegInf"
| "fl_neg NegInf = PosInf"

fun fl_add :: "pyfloat \<Rightarrow> pyfloat \<Rightarrow> pyfloat" where
  "fl_add (Num a) (Num b) = Num (a + b)"
| "fl_add NaN _ = NaN"
| "fl_add _ NaN = NaN"
| "fl_add PosInf NegInf = NaN"
| "fl_add NegInf PosInf = NaN"
| "fl_add PosInf _ = PosInf"
| "fl_add _ PosInf = PosInf"
| "fl_add NegInf _ = NegInf"
| "fl_add _ NegInf = NegInf"

definition fl_sub :: "pyfloat \<Rightarrow> pyfloat \<Rightarrow> pyfloat" where
  "fl_sub a b = fl_add a (fl_neg b)"

definition fl_sign :: "pyfloat \<Rightarrow> int" where
  "fl_sign a =
     (case a of
        Num x \<Rightarrow> (if x = 0 then 0 else if 0 < x then 1 else - 1)
      | NaN \<Rightarrow> 0
      | PosInf \<Rightarrow> 1
      | NegInf \<Rightarrow> - 1)"

definition fl_inf :: "int \<Rightarrow> pyfloat" where
  "fl_inf s = (if s = 0 then NaN else if 0 < s then PosInf else NegInf)"

fun fl_mul :: "pyfloat \<Rightarrow> pyfloat \<Rightarrow> pyfloat" where
  "fl_mul (Num a) (Num b) = Num (a * b)"
| "fl_mul NaN _ = NaN"
| "fl_mul _ NaN = NaN"
| "fl_mul a b = fl_inf (fl_sign a * fl_sign b)"

fun fl_div :: "pyfloat \<Rightarrow> pyfloat \<Rightarrow> pyfloat" where
  "fl_div (Num a) (Num b) = (if b = 0 then fl_inf (fl_sign (Num a)) else Num (a / b))"
| "fl_div NaN _ = NaN"
| "fl_div _ NaN = NaN"
| "fl_div (Num a) _ = Num 0"
| "fl_div a (Num b) = fl_inf (fl_sign a * (if b < 0 then - 1 else 1))"
| "fl_div _ _ = NaN"

text \<open>A comparison \<^verbatim>\<open>x >= c\<close> with a finite constant; it is false on NaN.\<close>

fun fl_ge :: "pyfloat \<Rightarrow> rat \<Rightarrow> bool" where
  "fl_ge (Num a) c = (c \<le> a)"
| "fl_ge NaN c = False"
| "fl_ge PosInf c = True"
| "fl_ge NegInf c = False"

text \<open>\<^verbatim>\<open>round(x, 2)\<close> and \<^verbatim>\<open>.round(2)\<close>: to the nearest hundredth, ties to the even one.\<close>

definition rint :: "rat \<Rightarrow> int" where
  "rint x =
     (let f = \<lfloor>x\<rfloor>; d = x - of_int f
      in if d < 1 / 2 then f else if 1 / 2 < d then f + 1 else if even f then f else f + 1)"

definition round2 :: "rat \<Rightarrow> rat" where
  "round2 a = of_int (rint (a * 100)) / 100"

fun fl_round2 :: "pyfloat \<Rightarrow> pyfloat" where
  "fl_round2 (Num a) = Num (round2 a)"
| "fl_round2 x = x"

text \<open>\<^verbatim>\<open>Series.mean()\<close> skips missing cells and is NaN when no cell is left.\<close>

definition mean :: "int list \<Rightarrow> pyfloat" where
  "mean xs = (if xs = [] then NaN else Num (of_int (sum_list xs) / of_nat (length xs)))"

definition dropna :: "'a option list \<Rightarrow> 'a list" where
  "dropna xs = map the (filter (\<lambda>x. x \<noteq> None) xs)"

definition mean_skipna :: "int option list \<Rightarrow> pyfloat" where
  "mean_skipna xs = mean (dropna xs)"

section \<open>Timestamps and periods\<close>

text \<open>
  A timestamp is its count of nanoseconds since 1970-01-01 00:00. The date is the day
  number, the \<^verbatim>\<open>to_period('W')\<close> week runs Monday to Sunday (day 0 is a Thursday) and the
  \<^verbatim>\<open>to_period('M')\<close> month is counted from January 1970 through the proleptic Gregorian
  calendar. The source turns week and month into text (\<^verbatim>\<open>'2024-01'\<close>); within the range of
  pandas timestamps (years 1677 to 2262) that text is ordered as these numbers are.
\<close>

type_synonym timestamp = int

definition ns_per_day :: int where
  "ns_per_day = 86400000000000"

definition date_of :: "timestamp \<Rightarrow> int" where
  "date_of t = t div ns_per_day"

definition to_period_W :: "timestamp \<Rightarrow> int" where
  "to_period_W t = (date_of t + 3) div 7"

definition month_of_day :: "int \<Rightarrow> int" where
  "month_of_day d =
     (let z = d + 719468;
          era = z div 146097;
          doe = z - era * 146097;
          yoe = (doe - doe div 1460 + doe div 36524 - doe div 146096) div 365;
          doy = doe - (365 * yoe + yoe div 4 - yoe div 100);
          mp = (5 * doy + 2) div 153;
          m = (if mp < 10 then mp + 3 else mp - 9);
          y = yoe + era * 400 + (if m \<le> 2 then 1 else 0)
      in (y - 1970) * 12 + (m - 1))"

definition to_period_M :: "timestamp \<Rightarrow> int" where
  "to_period_M t = month_of_day (date_of t)"

text \<open>\<^verbatim>\<open>(a - b).days\<close>: whole days of the difference, rounded down (negative when a < b).\<close>

definition timedelta_days :: "timestamp \<Rightarrow> timestamp \<Rightarrow> int" where
  "timedelta_days a b = (a - b) div ns_per_day"

text \<open>
  \<^verbatim>\<open>pd.to_datetime\<close> on a column that \<^verbatim>\<open>load_harvey_data\<close> has already converted
  returns the same timestamps.
\<close>

definition to_datetime :: "timestamp \<Rightarrow> timestamp" where
  "to_datetime t = t"

section \<open>The three input collections\<close>

text \<open>
  Identifiers are integers and are never missing; \<open>user_title\<close>, \<open>event_type\<close> and
  \<open>feedback_score\<close> may be missing (\<open>None\<close> is the NaN that \<^verbatim>\<open>read_csv\<close> leaves).
  A frame is its column labels and its rows. Fields of an event are prefixed \<open>ev_\<close>
  where the bare name belongs to the user or firm record.
\<close>

record user =
  user_id :: int
  user_created_date :: timestamp
  user_title :: "string option"

record firm =
  firm_id :: int
  firm_created_date :: timestamp
  firm_size :: int
  arr_in_thousands :: rat

record event =
  event_created_at :: timestamp
  ev_firm_id :: int
  ev_user_id :: int
  event_type :: "string option"
  num_docs :: int
  feedback_score :: "int option"

text \<open>The events frame once \<^verbatim>\<open>events_df['month'] = ...\<close> has run: one more column.\<close>

record event_m = event +
  month :: int

record 'r frame =
  columns :: "string list"
  rows :: "'r list"

text \<open>
  \<^verbatim>\<open>pd.DataFrame(list_of_dicts)\<close> takes its column labels from the dicts, so an empty
  list gives a frame with no column at all.
\<close>

definition DataFrame :: "string list \<Rightarrow> 'r list \<Rightarrow> 'r frame" where
  "DataFrame keys records = \<lparr>columns = (if records = [] then [] else keys), rows = records\<rparr>"

text \<open>\<^verbatim>\<open>df[name] = values\<close> overwrites the column when it exists and appends it otherwise.\<close>

definition set_column :: "string \<Rightarrow> string list \<Rightarrow> string list" where
  "set_column name cols = (if name \<in> set cols then cols else cols @ [name])"

text \<open>\<^verbatim>\<open>df.groupby(keys)\<close> raises \<^verbatim>\<open>KeyError\<close> on the first key that is not a column.\<close>

definition check_keys :: "string list \<Rightarrow> 'r frame \<Rightarrow> py_error + unit" where
  "check_keys keys df =
     (case find (\<lambda>k. k \<notin> set (columns df)) keys of
        Some k \<Rightarrow> Inl (KeyError k)
      | None \<Rightarrow> Inr ())"

text \<open>
  The groups of \<^verbatim>\<open>groupby\<close>: rows whose key has a missing part are dropped, the distinct
  keys come out sorted, each with its rows in their original order.
\<close>

definition groupby :: "('r \<Rightarrow> ('k::linorder) option) \<Rightarrow> 'r list \<Rightarrow> ('k \<times> 'r list) list" where
  "groupby key rs =
     map (\<lambda>k. (k, filter (\<lambda>r. key r = Some k) rs)) (sort (remdups (dropna (map key rs))))"

section \<open>simulate_user_engagement\<close>

text \<open>Fields of an engagement record carry the prefix \<open>e_\<close>.\<close>

record engagement_row =
  e_user_id :: int
  e_firm_id :: int
  e_user_title :: "string option"
  e_month :: int
  e_query_count :: nat
  e_active_days :: nat
  e_total_documents_processed :: int
  e_avg_feedback_score :: pyfloat
  e_engagement_level :: string

definition engagement_columns :: "string list" where
  "engagement_columns =
     [''user_id'', ''firm_id'', ''user_title'', ''month'', ''query_count'', ''active_days'',
      ''total_documents_processed'', ''avg_feedback_score'', ''engagement_level'']"

definition engagement_level :: "nat \<Rightarrow> nat \<Rightarrow> string" where
  "engagement_level query_count active_days =
     (if 50 \<le> query_count \<and> 15 \<le> active_days then ''Power User''
      else if 20 \<le> query_count \<and> 8 \<le> active_days then ''Active User''
      else if 5 \<le> query_count \<and> 3 \<le> active_days then ''Regular User''
      else if 1 \<le> query_count then ''Occasional User''
      else ''Inactive'')"

text \<open>The body of the inner loop: one record for a user who has events in the month.\<close>

definition engagement_record ::
  "user list \<Rightarrow> event_m list \<Rightarrow> int \<Rightarrow> int \<Rightarrow> py_error + engagement_row" where
  "engagement_record users month_events m uid =
     (let user_events = filter (\<lambda>e. ev_user_id e = uid) month_events
      in bindE (iloc0 (filter (\<lambda>u. user_id u = uid) users)) (\<lambda>user_info.
         bindE (iloc0 (map ev_firm_id user_events)) (\<lambda>fid.
         let query_count = length user_events;
             active_days = nunique (map (\<lambda>e. date_of (event_created_at e)) user_events);
             total_docs = sum_list (map num_docs user_events);
             avg_feedback = mean_skipna (map feedback_score user_events)
         in Inr \<lparr>e_user_id = uid,
                 e_firm_id = fid,
                 e_user_title = user_title user_info,
                 e_month = m,
                 e_query_count = query_count,
                 e_active_days = active_days,
                 e_total_documents_processed = total_docs,
                 e_avg_feedback_score = fl_round2 avg_feedback,
                 e_engagement_level = engagement_level query_count active_days\<rparr>)))"

definition engagement_data :: "user list \<Rightarrow> event_m list \<Rightarrow> py_error + engagement_row list" where
  "engagement_data users events =
     bindE
       (for_each
          (\<lambda>m. let month_events = filter (\<lambda>e. month e = m) events
               in for_each (engagement_record users month_events m)
                    (unique (map ev_user_id month_events)))
          (unique (map month events)))
       (\<lambda>chunks. Inr (concat chunks))"

text \<open>
  The function returns the three frames as its in-place assignments leave them, and the
  engagement table or the fault. The CSV export and the console summary that follow in
  the source are not modelled.
\<close>

definition simulate_user_engagement ::
  "user frame \<Rightarrow> firm frame \<Rightarrow> event frame \<Rightarrow>
     (user frame \<times> firm frame \<times> event_m frame) \<times> (py_error + engagement_row frame)" where
  "simulate_user_engagement users_df firms_df events_df =
     (let events_df' =
            \<lparr>columns = set_column ''month'' (columns events_df),
             rows = map (\<lambda>e. event.extend e
                                (event_m.fields (to_period_M (to_datetime (event_created_at e)))))
                      (rows events_df)\<rparr>;
          users_df' =
            \<lparr>columns = set_column ''user_created_date'' (columns users_df),
             rows = map (\<lambda>u. u\<lparr>user_created_date := to_datetime (user_created_date u)\<rparr>)
                      (rows users_df)\<rparr>
      in ((users_df', firms_df, events_df'),
          bindE (engagement_data (rows users_df') (rows events_df'))
            (\<lambda>data. Inr (DataFrame engagement_columns data))))"

section \<open>simulate_user_acquisition_base\<close>

text \<open>Fields of an acquisition record carry the prefix \<open>a_\<close>.\<close>

record acquisition_base_row =
  a_user_id :: int
  a_user_title :: "string option"
  a_user_created_date :: timestamp
  a_firm_id :: "int option"
  a_firm_size :: "int option"
  a_arr_in_thousands :: "rat option"
  a_acquisition_month :: int
  a_first_activity_date :: "timestamp option"
  a_days_to_first_activity :: "int option"
  a_total_events :: nat
  a_active_days :: nat
  a_avg_satisfaction_score :: "pyfloat option"
  a_total_documents_processed :: int
  a_is_activated :: nat
  a_is_quick_start :: nat
  a_is_monthly_activated :: nat
  a_firm_size_category :: string
  a_arr_category :: string
  a_activation_category :: string
  a_satisfaction_category :: string

definition acquisition_base_columns :: "string list" where
  "acquisition_base_columns =
     [''user_id'', ''user_title'', ''user_created_date'', ''firm_id'', ''firm_size'',
      ''arr_in_thousands'', ''acquisition_month'', ''first_activity_date'',
      ''days_to_first_activity'', ''total_events'', ''active_days'', ''avg_satisfaction_score'',
      ''total_documents_processed'', ''is_activated'', ''is_quick_start'',
      ''is_monthly_activated'', ''firm_size_category'', ''arr_category'',
      ''activation_category'', ''satisfaction_category'']"

text \<open>The two firm ladders run only when a firm record was found.\<close>

definition firm_size_category :: "firm option \<Rightarrow> string" where
  "firm_size_category firm_info =
     (case firm_info of
        None \<Rightarrow> ''Unknown''
      | Some f \<Rightarrow>
          (if 500 \<le> firm_size f then ''Enterprise''
           else if 200 \<le> firm_size f then ''Large''
           else if 100 \<le> firm_size f then ''Medium''
           else ''Small''))"

definition arr_category :: "firm option \<Rightarrow> string" where
  "arr_category firm_info =
     (case firm_info of
        None \<Rightarrow> ''Unknown''
      | Some f \<Rightarrow>
          (if 500 \<le> arr_in_thousands f then ''High Value''
           else if 200 \<le> arr_in_thousands f then ''Medium Value''
           else if 100 \<le> arr_in_thousands f then ''Low Value''
           else ''Minimal Value''))"

definition activation_category :: "nat \<Rightarrow> int option \<Rightarrow> string" where
  "activation_category is_activated days_to_first_activity =
     (case days_to_first_activity of
        None \<Rightarrow> ''Not Activated''
      | Some d \<Rightarrow>
          (if is_activated = 1 then
             (if d \<le> 1 then ''Immediate Activation''
              else if d \<le> 7 then ''Quick Activation''
              else if d \<le> 30 then ''Standard Activation''
              else ''Delayed Activation'')
           else ''Not Activated''))"

text \<open>
  \<open>avg_satisfaction\<close> is the Python \<^verbatim>\<open>None\<close> (here \<open>None\<close>) for a user without events,
  and otherwise the mean of the user's feedback scores, which is NaN when every score
  is missing. The source tests \<^verbatim>\<open>is not None\<close>, so NaN enters the ladder.
\<close>

definition satisfaction_category :: "pyfloat option \<Rightarrow> string" where
  "satisfaction_category avg_satisfaction =
     (case avg_satisfaction of
        None \<Rightarrow> ''No Feedback''
      | Some x \<Rightarrow>
          (if fl_ge x (9 / 2) then ''High Satisfaction''
           else if fl_ge x 4 then ''Good Satisfaction''
           else if fl_ge x (7 / 2) then ''Fair Satisfaction''
           else ''Low Satisfaction''))"

text \<open>
  \<^verbatim>\<open>... if firm_id else None\<close>: the lookup runs when \<open>firm_id\<close> is truthy, that is when
  the user has an event and the identifier of the first one is not 0. The other test of
  this kind, \<^verbatim>\<open>if first_activity:\<close>, holds for every timestamp.
\<close>

definition lookup_firm :: "firm list \<Rightarrow> int option \<Rightarrow> py_error + firm option" where
  "lookup_firm firms fid =
     (case fid of
        None \<Rightarrow> Inr None
      | Some i \<Rightarrow>
          (if i = 0 then Inr None
           else bindE (iloc0 (filter (\<lambda>f. firm_id f = i) firms)) (\<lambda>f. Inr (Some f))))"

definition acquisition_base_record ::
  "user list \<Rightarrow> firm list \<Rightarrow> event list \<Rightarrow> int \<Rightarrow> py_error + acquisition_base_row" where
  "acquisition_base_record users firms events uid =
     bindE (iloc0 (filter (\<lambda>u. user_id u = uid) users)) (\<lambda>user_info.
     let user_events = filter (\<lambda>e. ev_user_id e = uid) events;
         fid = (case user_events of [] \<Rightarrow> None | e # _ \<Rightarrow> Some (ev_firm_id e))
     in bindE (lookup_firm firms fid) (\<lambda>firm_info.
        let acquisition_month = to_period_M (user_created_date user_info);
            first_activity =
              (case map event_created_at user_events of
                 [] \<Rightarrow> None
               | t # ts \<Rightarrow> Some (fold min ts t));
            days_to_first_activity =
              map_option (\<lambda>t. timedelta_days t (user_created_date user_info)) first_activity;
            is_activated = (if first_activity \<noteq> None then 1 else 0);
            is_quick_start =
              (case days_to_first_activity of None \<Rightarrow> 0 | Some d \<Rightarrow> if d \<le> 7 then 1 else 0);
            is_monthly_activated =
              (case days_to_first_activity of None \<Rightarrow> 0 | Some d \<Rightarrow> if d \<le> 30 then 1 else 0);
            avg_satisfaction =
              (if 0 < length user_events
               then Some (mean_skipna (map feedback_score user_events)) else None)
        in Inr \<lparr>a_user_id = uid,
                a_user_title = user_title user_info,
                a_user_created_date = user_created_date user_info,
                a_firm_id = fid,
                a_firm_size = map_option firm_size firm_info,
                a_arr_in_thousands = map_option arr_in_thousands firm_info,
                a_acquisition_month = acquisition_month,
                a_first_activity_date = first_activity,
                a_days_to_first_activity = days_to_first_activity,
                a_total_events = length user_events,
                a_active_days =
                  (if 0 < length user_events
                   then nunique (map (\<lambda>e. date_of (event_created_at e)) user_events) else 0),
                a_avg_satisfaction_score = avg_satisfaction,
                a_total_documents_processed =
                  (if 0 < length user_events then sum_list (map num_docs user_events) else 0),
                a_is_activated = is_activated,
                a_is_quick_start = is_quick_start,
                a_is_monthly_activated = is_monthly_activated,
                a_firm_size_category = firm_size_category firm_info,
                a_arr_category = arr_category firm_info,
                a_activation_category = activation_category is_activated days_to_first_activity,
                a_satisfaction_category = satisfaction_category avg_satisfaction\<rparr>))"

definition simulate_user_acquisition_base ::
  "user frame \<Rightarrow> firm frame \<Rightarrow> event frame \<Rightarrow>
     (user frame \<times> firm frame \<times> event frame) \<times> (py_error + acquisition_base_row frame)" where
  "simulate_user_acquisition_base users_df firms_df events_df =
     (let users_df' =
            \<lparr>columns = set_column ''user_created_date'' (columns users_df),
             rows = map (\<lambda>u. u\<lparr>user_created_date := to_datetime (user_created_date u)\<rparr>)
                      (rows users_df)\<rparr>;
          events_df' =
            \<lparr>columns = set_column ''event_created_at'' (columns events_df),
             rows = map (\<lambda>e. e\<lparr>event_created_at := to_datetime (event_created_at e)\<rparr>)
                      (rows events_df)\<rparr>
      in ((users_df', firms_df, events_df'),
          bindE (for_each (acquisition_base_record (rows users_df') (rows firms_df) (rows events_df'))
                   (unique (map user_id (rows users_df'))))
            (\<lambda>data. Inr (DataFrame acquisition_base_columns data))))"

section \<open>simulate_event_performance_metrics\<close>

subsection \<open>The per-event table\<close>

text \<open>Fields of a per-event record carry the prefix \<open>p_\<close>.\<close>

record perf_row =
  p_event_id :: nat
  p_event_type :: "string option"
  p_event_created_at :: timestamp
  p_num_docs :: int
  p_feedback_score :: "int option"
  p_user_id :: int
  p_user_title :: "string option"
  p_user_created_date :: timestamp
  p_firm_id :: int
  p_firm_size :: int
  p_arr_in_thousands :: rat
  p_event_month :: int
  p_event_week :: int
  p_event_date :: int
  p_user_tenure_days :: int
  p_high_satisfaction_event :: nat
  p_high_volume_event :: nat
  p_user_segment :: string

definition event_performance_columns :: "string list" where
  "event_performance_columns =
     [''event_id'', ''event_type'', ''event_created_at'', ''num_docs'', ''feedback_score'',
      ''user_id'', ''user_title'', ''user_created_date'', ''firm_id'', ''firm_size'',
      ''arr_in_thousands'', ''event_month'', ''event_week'', ''event_date'',
      ''user_tenure_days'', ''high_satisfaction_event'', ''high_volume_event'',
      ''user_segment'']"

definition user_segment :: "int \<Rightarrow> string" where
  "user_segment user_tenure_days =
     (if user_tenure_days \<le> 7 then ''New User''
      else if user_tenure_days \<le> 30 then ''Recent User''
      else if user_tenure_days \<le> 90 then ''Established User''
      else ''Long-term User'')"

text \<open>
  The body of the loop over \<^verbatim>\<open>events_df.iterrows()\<close>; the event comes with its row
  position, which becomes \<open>event_id\<close>. Both lookups end in \<^verbatim>\<open>.iloc[0]\<close>.
\<close>

definition event_performance_record ::
  "user list \<Rightarrow> firm list \<Rightarrow> nat \<times> event \<Rightarrow> py_error + perf_row" where
  "event_performance_record users firms ie =
     (let name = fst ie; event = snd ie
      in bindE (iloc0 (filter (\<lambda>u. user_id u = ev_user_id event) users)) (\<lambda>user_info.
         bindE (iloc0 (filter (\<lambda>f. firm_id f = ev_firm_id event) firms)) (\<lambda>firm_info.
         let user_tenure_days =
               timedelta_days (event_created_at event) (user_created_date user_info)
         in Inr \<lparr>p_event_id = name,
                 p_event_type = event_type event,
                 p_event_created_at = event_created_at event,
                 p_num_docs = num_docs event,
                 p_feedback_score = feedback_score event,
                 p_user_id = ev_user_id event,
                 p_user_title = user_title user_info,
                 p_user_created_date = user_created_date user_info,
                 p_firm_id = ev_firm_id event,
                 p_firm_size = firm_size firm_info,
                 p_arr_in_thousands = arr_in_thousands firm_info,
                 p_event_month = to_period_M (event_created_at event),
                 p_event_week = to_period_W (event_created_at event),
                 p_event_date = date_of (event_created_at event),
                 p_user_tenure_days = user_tenure_days,
                 p_high_satisfaction_event =
                   (case feedback_score event of
                      None \<Rightarrow> 0
                    | Some s \<Rightarrow> if 4 \<le> s then 1 else 0),
                 p_high_volume_event = (if 10 \<le> num_docs event then 1 else 0),
                 p_user_segment = user_segment user_tenure_days\<rparr>)))"

definition enumerate_rows :: "'a list \<Rightarrow> (nat \<times> 'a) list" where
  "enumerate_rows xs = zip [0..<length xs] xs"

definition event_performance_data ::
  "user list \<Rightarrow> firm list \<Rightarrow> event list \<Rightarrow> py_error + perf_row list" where
  "event_performance_data users firms events =
     for_each (event_performance_record users firms) (enumerate_rows events)"

subsection \<open>Aggregates of one group\<close>

record agg =
  total_events :: nat
  unique_users :: nat
  unique_firms :: nat
  total_documents_processed :: int
  avg_documents_per_event :: pyfloat
  avg_satisfaction_score :: pyfloat
  high_satisfaction_events :: nat
  high_volume_events :: nat

definition agg_columns :: "string list" where
  "agg_columns =
     [''total_events'', ''unique_users'', ''unique_firms'', ''total_documents_processed'',
      ''avg_documents_per_event'', ''avg_satisfaction_score'', ''high_satisfaction_events'',
      ''high_volume_events'']"

text \<open>The columns that the \<^verbatim>\<open>agg\<close> dict reads.\<close>

definition agg_inputs :: "string list" where
  "agg_inputs =
     [''event_id'', ''user_id'', ''firm_id'', ''num_docs'', ''feedback_score'',
      ''high_satisfaction_event'', ''high_volume_event'']"

definition aggregate :: "perf_row list \<Rightarrow> agg" where
  "aggregate g =
     \<lparr>total_events = length (map p_event_id g),
      unique_users = nunique (map p_user_id g),
      unique_firms = nunique (map p_firm_id g),
      total_documents_processed = sum_list (map p_num_docs g),
      avg_documents_per_event = mean (map p_num_docs g),
      avg_satisfaction_score = mean_skipna (map p_feedback_score g),
      high_satisfaction_events = sum_list (map p_high_satisfaction_event g),
      high_volume_events = sum_list (map p_high_volume_event g)\<rparr>"

text \<open>\<^verbatim>\<open>(part / whole * 100).round(2)\<close> and \<^verbatim>\<open>(amount / users).round(2)\<close>.\<close>

definition rate_pct :: "nat \<Rightarrow> nat \<Rightarrow> pyfloat" where
  "rate_pct part whole =
     fl_round2 (fl_mul (fl_div (Num (of_nat part)) (Num (of_nat whole))) (Num 100))"

definition per_user :: "int \<Rightarrow> nat \<Rightarrow> pyfloat" where
  "per_user amount users = fl_round2 (fl_div (Num (of_int amount)) (Num (of_nat users)))"

subsection \<open>Daily grain\<close>

record daily_row =
  d_event_date :: int
  d_event_type :: string
  d_user_title :: string
  d_user_segment :: string
  d_agg :: agg
  d_satisfaction_rate_pct :: pyfloat
  d_high_volume_rate_pct :: pyfloat
  d_documents_per_user :: pyfloat
  d_events_per_user :: pyfloat
  d_time_grain :: string
  d_time_period :: int

definition daily_keys :: "string list" where
  "daily_keys = [''event_date'', ''event_type'', ''user_title'', ''user_segment'']"

definition daily_key :: "perf_row \<Rightarrow> (int \<times> string \<times> string \<times> string) option" where
  "daily_key r =
     (case (p_event_type r, p_user_title r) of
        (Some t, Some ti) \<Rightarrow> Some (p_event_date r, t, ti, p_user_segment r)
      | _ \<Rightarrow> None)"

definition daily_row_of :: "(int \<times> string \<times> string \<times> string) \<times> perf_row list \<Rightarrow> daily_row" where
  "daily_row_of kg =
     (case kg of ((d, t, ti, sg), g) \<Rightarrow>
        let a = aggregate g
        in \<lparr>d_event_date = d,
            d_event_type = t,
            d_user_title = ti,
            d_user_segment = sg,
            d_agg = a,
            d_satisfaction_rate_pct = rate_pct (high_satisfaction_events a) (total_events a),
            d_high_volume_rate_pct = rate_pct (high_volume_events a) (total_events a),
            d_documents_per_user = per_user (total_documents_processed a) (unique_users a),
            d_events_per_user = per_user (int (total_events a)) (unique_users a),
            d_time_grain = ''daily'',
            d_time_period = d\<rparr>)"

definition daily_rows :: "perf_row list \<Rightarrow> daily_row list" where
  "daily_rows rs = map daily_row_of (groupby daily_key rs)"

definition daily_columns :: "string list" where
  "daily_columns =
     daily_keys @ agg_columns @
     [''satisfaction_rate_pct'', ''high_volume_rate_pct'', ''documents_per_user'',
      ''events_per_user'', ''time_grain'', ''time_period'']"

definition daily_metrics :: "perf_row frame \<Rightarrow> py_error + daily_row frame" where
  "daily_metrics df =
     bindE (check_keys (daily_keys @ agg_inputs) df)
       (\<lambda>_. Inr \<lparr>columns = daily_columns, rows = daily_rows (rows df)\<rparr>)"

subsection \<open>Weekly grain\<close>

record weekly_row =
  w_event_week :: int
  w_event_type :: string
  w_user_title :: string
  w_agg :: agg
  w_satisfaction_rate_pct :: pyfloat
  w_high_volume_rate_pct :: pyfloat
  w_prev_week_events :: pyfloat
  w_week_over_week_growth_pct :: pyfloat
  w_time_grain :: string
  w_time_period :: int

definition weekly_keys :: "string list" where
  "weekly_keys = [''event_week'', ''event_type'', ''user_title'']"

definition weekly_key :: "perf_row \<Rightarrow> (int \<times> string \<times> string) option" where
  "weekly_key r =
     (case (p_event_type r, p_user_title r) of
        (Some t, Some ti) \<Rightarrow> Some (p_event_week r, t, ti)
      | _ \<Rightarrow> None)"

text \<open>
  \<^verbatim>\<open>groupby(series)[col].shift(1)\<close>: each row gets the value of the row before it in its
  own series, NaN for the first row of a series. \<open>seen\<close> holds the rows already passed,
  the latest first.
\<close>

fun shift1 :: "('s \<times> nat) list \<Rightarrow> ('s \<times> nat) list \<Rightarrow> pyfloat list" where
  "shift1 seen [] = []"
| "shift1 seen (sn # rest) =
     (case find (\<lambda>p. fst p = fst sn) seen of
        None \<Rightarrow> NaN
      | Some p \<Rightarrow> Num (of_nat (snd p))) # shift1 (sn # seen) rest"

text \<open>\<^verbatim>\<open>.replace(0, np.nan)\<close> on the divisor.\<close>

definition replace_zero_nan :: "pyfloat \<Rightarrow> pyfloat" where
  "replace_zero_nan x = (if x = Num 0 then NaN else x)"

definition week_over_week_growth_pct :: "nat \<Rightarrow> pyfloat \<Rightarrow> pyfloat" where
  "week_over_week_growth_pct week_events prev_week_events =
     fl_round2
       (fl_div (fl_mul (fl_sub (Num (of_nat week_events)) prev_week_events) (Num 100))
          (replace_zero_nan prev_week_events))"

definition weekly_row_of ::
  "(int \<times> string \<times> string) \<times> perf_row list \<Rightarrow> pyfloat \<Rightarrow> weekly_row" where
  "weekly_row_of kg prev =
     (case kg of ((w, t, ti), g) \<Rightarrow>
        let a = aggregate g
        in \<lparr>w_event_week = w,
            w_event_type = t,
            w_user_title = ti,
            w_agg = a,
            w_satisfaction_rate_pct = rate_pct (high_satisfaction_events a) (total_events a),
            w_high_volume_rate_pct = rate_pct (high_volume_events a) (total_events a),
            w_prev_week_events = prev,
            w_week_over_week_growth_pct = week_over_week_growth_pct (total_events a) prev,
            w_time_grain = ''weekly'',
            w_time_period = w\<rparr>)"

definition series_of ::
  "(int \<times> string \<times> string) \<times> perf_row list \<Rightarrow> (string \<times> string) \<times> nat" where
  "series_of kg = (snd (fst kg), total_events (aggregate (snd kg)))"

definition weekly_rows :: "perf_row list \<Rightarrow> weekly_row list" where
  "weekly_rows rs =
     (let gs = groupby weekly_key rs
      in map2 weekly_row_of gs (shift1 [] (map series_of gs)))"

definition weekly_columns :: "string list" where
  "weekly_columns =
     weekly_keys @ agg_columns @
     [''satisfaction_rate_pct'', ''high_volume_rate_pct'', ''prev_week_events'',
      ''week_over_week_growth_pct'', ''time_grain'', ''time_period'']"

definition weekly_metrics :: "perf_row frame \<Rightarrow> py_error + weekly_row frame" where
  "weekly_metrics df =
     bindE (check_keys (weekly_keys @ agg_inputs) df)
       (\<lambda>_. Inr \<lparr>columns = weekly_columns, rows = weekly_rows (rows df)\<rparr>)"

subsection \<open>Monthly grain\<close>

record monthly_row =
  m_event_month :: int
  m_event_type :: string
  m_user_title :: string
  m_user_segment :: string
  m_agg :: agg
  m_satisfaction_rate_pct :: pyfloat
  m_high_volume_rate_pct :: pyfloat
  m_events_per_user :: pyfloat
  m_documents_per_user :: pyfloat
  m_satisfaction_performance :: string
  m_volume_performance :: string
  m_time_grain :: string
  m_time_period :: int

definition monthly_keys :: "string list" where
  "monthly_keys = [''event_month'', ''event_type'', ''user_title'', ''user_segment'']"

definition monthly_key :: "perf_row \<Rightarrow> (int \<times> string \<times> string \<times> string) option" where
  "monthly_key r =
     (case (p_event_type r, p_user_title r) of
        (Some t, Some ti) \<Rightarrow> Some (p_event_month r, t, ti, p_user_segment r)
      | _ \<Rightarrow> None)"

definition satisfaction_performance :: "pyfloat \<Rightarrow> string" where
  "satisfaction_performance x =
     (if fl_ge x (9 / 2) then ''Excellent''
      else if fl_ge x 4 then ''Good''
      else if fl_ge x (7 / 2) then ''Fair''
      else ''Needs Improvement'')"

definition volume_performance :: "nat \<Rightarrow> string" where
  "volume_performance x =
     (if 1000 \<le> x then ''High Volume''
      else if 500 \<le> x then ''Medium Volume''
      else if 100 \<le> x then ''Low Volume''
      else ''Minimal Volume'')"

definition monthly_row_of ::
  "(int \<times> string \<times> string \<times> string) \<times> perf_row list \<Rightarrow> monthly_row" where
  "monthly_row_of kg =
     (case kg of ((m, t, ti, sg), g) \<Rightarrow>
        let a = aggregate g
        in \<lparr>m_event_month = m,
            m_event_type = t,
            m_user_title = ti,
            m_user_segment = sg,
            m_agg = a,
            m_satisfaction_rate_pct = rate_pct (high_satisfaction_events a) (total_events a),
            m_high_volume_rate_pct = rate_pct (high_volume_events a) (total_events a),
            m_events_per_user = per_user (int (total_events a)) (unique_users a),
            m_documents_per_user = per_user (total_documents_processed a) (unique_users a),
            m_satisfaction_performance = satisfaction_performance (avg_satisfaction_score a),
            m_volume_performance = volume_performance (total_events a),
            m_time_grain = ''monthly'',
            m_time_period = m\<rparr>)"

definition monthly_rows :: "perf_row list \<Rightarrow> monthly_row list" where
  "monthly_rows rs = map monthly_row_of (groupby monthly_key rs)"

definition monthly_columns :: "string list" where
  "monthly_columns =
     monthly_keys @ agg_columns @
     [''satisfaction_rate_pct'', ''high_volume_rate_pct'', ''events_per_user'',
      ''documents_per_user'', ''satisfaction_performance'', ''volume_performance'',
      ''time_grain'', ''time_period'']"

definition monthly_metrics :: "perf_row frame \<Rightarrow> py_error + monthly_row frame" where
  "monthly_metrics df =
     bindE (check_keys (monthly_keys @ agg_inputs) df)
       (\<lambda>_. Inr \<lparr>columns = monthly_columns, rows = monthly_rows (rows df)\<rparr>)"

subsection \<open>The union of the three grains\<close>

text \<open>
  A row of the combined table. The \<open>time_period\<close> column holds dates, weeks and months.
  In the five columns that some grain lacks, \<open>None\<close> is the Python \<^verbatim>\<open>None\<close> that the
  source assigns to the whole column of that grain.
\<close>

datatype period = Date int | Week int | Month int

record combined_row =
  time_grain :: string
  time_period :: period
  c_event_type :: string
  c_user_title :: string
  c_user_segment :: "string option"
  c_agg :: agg
  c_satisfaction_rate_pct :: pyfloat
  c_high_volume_rate_pct :: pyfloat
  c_documents_per_user :: "pyfloat option"
  c_events_per_user :: "pyfloat option"
  c_week_over_week_growth_pct :: "pyfloat option"
  c_satisfaction_performance :: "string option"
  c_volume_performance :: "string option"

text \<open>
  \<^verbatim>\<open>df[[labels]].copy()\<close> followed by \<^verbatim>\<open>copy[label] = None\<close> for each added label: the
  selection raises \<^verbatim>\<open>KeyError\<close> when a label is not a column of \<open>df\<close>.
\<close>

definition select_and_add ::
  "string list \<Rightarrow> string list \<Rightarrow> ('a \<Rightarrow> 'b) \<Rightarrow> 'a frame \<Rightarrow> py_error + 'b frame" where
  "select_and_add selected added widen df =
     bindE (check_keys selected df)
       (\<lambda>_. Inr \<lparr>columns = fold set_column added selected, rows = map widen (rows df)\<rparr>)"

definition daily_widen :: "daily_row \<Rightarrow> combined_row" where
  "daily_widen r =
     \<lparr>time_grain = d_time_grain r,
      time_period = Date (d_time_period r),
      c_event_type = d_event_type r,
      c_user_title = d_user_title r,
      c_user_segment = Some (d_user_segment r),
      c_agg = d_agg r,
      c_satisfaction_rate_pct = d_satisfaction_rate_pct r,
      c_high_volume_rate_pct = d_high_volume_rate_pct r,
      c_documents_per_user = Some (d_documents_per_user r),
      c_events_per_user = Some (d_events_per_user r),
      c_week_over_week_growth_pct = None,
      c_satisfaction_performance = None,
      c_volume_performance = None\<rparr>"

definition daily_selected :: "string list" where
  "daily_selected =
     [''time_grain'', ''time_period'', ''event_type'', ''user_title'', ''user_segment'']
     @ agg_columns @
     [''satisfaction_rate_pct'', ''high_volume_rate_pct'', ''documents_per_user'',
      ''events_per_user'']"

definition daily_added :: "string list" where
  "daily_added =
     [''week_over_week_growth_pct'', ''satisfaction_performance'', ''volume_performance'']"

definition daily_union :: "daily_row frame \<Rightarrow> py_error + combined_row frame" where
  "daily_union = select_and_add daily_selected daily_added daily_widen"

definition weekly_widen :: "weekly_row \<Rightarrow> combined_row" where
  "weekly_widen r =
     \<lparr>time_grain = w_time_grain r,
      time_period = Week (w_time_period r),
      c_event_type = w_event_type r,
      c_user_title = w_user_title r,
      c_user_segment = None,
      c_agg = w_agg r,
      c_satisfaction_rate_pct = w_satisfaction_rate_pct r,
      c_high_volume_rate_pct = w_high_volume_rate_pct r,
      c_documents_per_user = None,
      c_events_per_user = None,
      c_week_over_week_growth_pct = Some (w_week_over_week_growth_pct r),
      c_satisfaction_performance = None,
      c_volume_performance = None\<rparr>"

definition weekly_selected :: "string list" where
  "weekly_selected =
     [''time_grain'', ''time_period'', ''event_type'', ''user_title'']
     @ agg_columns @
     [''satisfaction_rate_pct'', ''high_volume_rate_pct'', ''week_over_week_growth_pct'']"

definition weekly_added :: "string list" where
  "weekly_added =
     [''user_segment'', ''documents_per_user'', ''events_per_user'',
      ''satisfaction_performance'', ''volume_performance'']"

definition weekly_union :: "weekly_row frame \<Rightarrow> py_error + combined_row frame" where
  "weekly_union = select_and_add weekly_selected weekly_added weekly_widen"

definition monthly_widen :: "monthly_row \<Rightarrow> combined_row" where
  "monthly_widen r =
     \<lparr>time_grain = m_time_grain r,
      time_period = Month (m_time_period r),
      c_event_type = m_event_type r,
      c_user_title = m_user_title r,
      c_user_segment = Some (m_user_segment r),
      c_agg = m_agg r,
      c_satisfaction_rate_pct = m_satisfaction_rate_pct r,
      c_high_volume_rate_pct = m_high_volume_rate_pct r,
      c_documents_per_user = Some (m_documents_per_user r),
      c_events_per_user = Some (m_events_per_user r),
      c_week_over_week_growth_pct = None,
      c_satisfaction_performance = Some (m_satisfaction_performance r),
      c_volume_performance = Some (m_volume_performance r)\<rparr>"

definition monthly_selected :: "string list" where
  "monthly_selected =
     [''time_grain'', ''time_period'', ''event_type'', ''user_title'', ''user_segment'']
     @ agg_columns @
     [''satisfaction_rate_pct'', ''high_volume_rate_pct'', ''events_per_user'',
      ''documents_per_user'', ''satisfaction_performance'', ''volume_performance'']"

definition monthly_added :: "string list" where
  "monthly_added = [''week_over_week_growth_pct'']"

definition monthly_union :: "monthly_row frame \<Rightarrow> py_error + combined_row frame" where
  "monthly_union = select_and_add monthly_selected monthly_added monthly_widen"

text \<open>
  \<^verbatim>\<open>pd.concat(frames, ignore_index=True)\<close>: the rows one frame after the other, under the
  union of the column labels in their order of first appearance.
\<close>

definition concat_frames :: "'r frame list \<Rightarrow> 'r frame" where
  "concat_frames dfs =
     \<lparr>columns = unique (concat (map columns dfs)), rows = concat (map rows dfs)\<rparr>"

definition combined_columns :: "string list" where
  "combined_columns =
     [''time_grain'', ''time_period'', ''event_type'', ''user_title'', ''user_segment'',
      ''total_events'', ''unique_users'', ''unique_firms'', ''total_documents_processed'',
      ''avg_documents_per_event'', ''avg_satisfaction_score'', ''high_satisfaction_events'',
      ''high_volume_events'', ''satisfaction_rate_pct'', ''high_volume_rate_pct'',
      ''documents_per_user'', ''events_per_user'', ''week_over_week_growth_pct'',
      ''satisfaction_performance'', ''volume_performance'']"

text \<open>The aggregation and union steps, from the per-event table to the combined one.\<close>

definition combined_metrics :: "perf_row frame \<Rightarrow> py_error + combined_row frame" where
  "combined_metrics event_performance_df =
     bindE (daily_metrics event_performance_df) (\<lambda>daily.
     bindE (weekly_metrics event_performance_df) (\<lambda>weekly.
     bindE (monthly_metrics event_performance_df) (\<lambda>monthly.
     bindE (daily_union daily) (\<lambda>du.
     bindE (weekly_union weekly) (\<lambda>wu.
     bindE (monthly_union monthly) (\<lambda>mu.
     Inr (concat_frames [du, wu, mu])))))))"

text \<open>
  The function returns the three frames as its in-place assignments leave them, and the
  combined table or the fault. The CSV export and the console summary are not modelled.
\<close>

definition simulate_event_performance_metrics ::
  "user frame \<Rightarrow> firm frame \<Rightarrow> event frame \<Rightarrow>
     (user frame \<times> firm frame \<times> event frame) \<times> (py_error + combined_row frame)" where
  "simulate_event_performance_metrics users_df firms_df events_df =
     (let events_df' =
            \<lparr>columns = set_column ''event_created_at'' (columns events_df),
             rows = map (\<lambda>e. e\<lparr>event_created_at := to_datetime (event_created_at e)\<rparr>)
                      (rows events_df)\<rparr>;
          users_df' =
            \<lparr>columns = set_column ''user_created_date'' (columns users_df),
             rows = map (\<lambda>u. u\<lparr>user_created_date := to_datetime (user_created_date u)\<rparr>)
                      (rows users_df)\<rparr>
      in ((users_df', firms_df, events_df'),
          bindE (event_performance_data (rows users_df') (rows firms_df) (rows events_df'))
            (\<lambda>data. combined_metrics (DataFrame event_performance_columns data))))"

section \<open>The tier table of the specification\<close>

text \<open>
  This definition follows the words of the specification, not the source: the tiers in
  descending order of threshold, each with its two conditions, and "first matching tier
  wins". It is compared below with \<open>engagement_level\<close>, which follows the source.
\<close>

definition engagement_tiers :: "(string \<times> nat \<times> nat) list" where
  "engagement_tiers =
     [(''Power User'', 50, 15), (''Active User'', 20, 8), (''Regular User'', 5, 3),
      (''Occasional User'', 1, 0)]"

definition first_matching_tier :: "nat \<Rightarrow> nat \<Rightarrow> string" where
  "first_matching_tier q d =
     (case find (\<lambda>t. fst (snd t) \<le> q \<and> snd (snd t) \<le> d) engagement_tiers of
        Some t \<Rightarrow> fst t
      | None \<Rightarrow> ''Inactive'')"

section \<open>Sample data\<close>

definition sample_users :: "user frame" where
  "sample_users =
     \<lparr>columns = [''user_id'', ''user_created_date'', ''user_title''],
      rows = [\<lparr>user_id = 1, user_created_date = 0, user_title = Some ''Associate''\<rparr>,
              \<lparr>user_id = 2, user_created_date = 5 * ns_per_day, user_title = Some ''Partner''\<rparr>]\<rparr>"

definition sample_firms :: "firm frame" where
  "sample_firms =
     \<lparr>columns = [''firm_id'', ''firm_created_date'', ''firm_size'', ''arr_in_thousands''],
      rows = [\<lparr>firm_id = 7, firm_created_date = 0, firm_size = 120, arr_in_thousands = 250\<rparr>]\<rparr>"

definition event_columns :: "string list" where
  "event_columns =
     [''event_created_at'', ''firm_id'', ''user_id'', ''event_type'', ''num_docs'',
      ''feedback_score'']"

definition sample_events :: "event frame" where
  "sample_events =
     \<lparr>columns = event_columns,
      rows = [\<lparr>event_created_at = 3 * ns_per_day, ev_firm_id = 7, ev_user_id = 1,
               event_type = Some ''ASSISTANT'', num_docs = 12, feedback_score = Some 5\<rparr>,
              \<lparr>event_created_at = 11 * ns_per_day, ev_firm_id = 7, ev_user_id = 1,
               event_type = Some ''ASSISTANT'', num_docs = 3, feedback_score = None\<rparr>,
              \<lparr>event_created_at = 12 * ns_per_day, ev_firm_id = 7, ev_user_id = 2,
               event_type = Some ''ASSISTANT'', num_docs = 4, feedback_score = Some 3\<rparr>]\<rparr>"

text \<open>Two events of user 1, the second one without an event type.\<close>

definition untyped_events :: "event frame" where
  "untyped_events =
     \<lparr>columns = event_columns,
      rows = [\<lparr>event_created_at = 3 * ns_per_day, ev_firm_id = 7, ev_user_id = 1,
               event_type = Some ''ASSISTANT'', num_docs = 12, feedback_score = Some 5\<rparr>,
              \<lparr>event_created_at = 4 * ns_per_day, ev_firm_id = 7, ev_user_id = 1,
               event_type = None, num_docs = 2, feedback_score = Some 4\<rparr>]\<rparr>"

text \<open>The per-event table of these two events, as the derivation returns it.\<close>

definition untyped_rows :: "perf_row list" where
  "untyped_rows =
     (case event_performance_data (rows sample_users) (rows sample_firms) (rows untyped_events) of
        Inl err \<Rightarrow> []
      | Inr rs \<Rightarrow> rs)"



text \<open>An event of user 2 on day 3, two days before that user was created.\<close>

definition early_event :: "nat \<times> event" where
  "early_event =
     (0, \<lparr>event_created_at = 3 * ns_per_day, ev_firm_id = 7, ev_user_id = 2,
          event_type = Some ''ASSISTANT'', num_docs = 1, feedback_score = None\<rparr>)"

text \<open>An event that refers to user 9, of whom the users collection has no record.\<close>

definition orphan_events :: "event frame" where
  "orphan_events =
     \<lparr>columns = event_columns,
      rows = [\<lparr>event_created_at = 3 * ns_per_day, ev_firm_id = 7, ev_user_id = 9,
               event_type = Some ''ASSISTANT'', num_docs = 12, feedback_score = Some 5\<rparr>]\<rparr>"

text \<open>An event of user 1 for firm 8, of which the firms collection has no record.\<close>

definition orphan_firm_events :: "event frame" where
  "orphan_firm_events =
     \<lparr>columns = event_columns,
      rows = [\<lparr>event_created_at = 3 * ns_per_day, ev_firm_id = 8, ev_user_id = 1,
               event_type = Some ''ASSISTANT'', num_docs = 12, feedback_score = Some 5\<rparr>]\<rparr>"

text \<open>One event of user 1, without a feedback score.\<close>

definition unrated_events :: "event frame" where
  "unrated_events =
     \<lparr>columns = event_columns,
      rows = [\<lparr>event_created_at = 3 * ns_per_day, ev_firm_id = 7, ev_user_id = 1,
               event_type = Some ''ASSISTANT'', num_docs = 12, feedback_score = None\<rparr>]\<rparr>"

definition no_events :: "event frame" where
  "no_events = \<lparr>columns = event_columns, rows = []\<rparr>"

section \<open>The satisfaction category of a user without scores\<close>

text \<open>
  C3. The claim is that \<open>satisfaction_category\<close> is No Feedback exactly when the user has
  no feedback score to average. Here user 1 has one event and no score: the average is
  NaN, which is not \<^verbatim>\<open>None\<close>, so the ladder runs, every comparison with NaN is false and
  the category is Low Satisfaction. Only user 2, who has no event at all, is No Feedback.
\<close>

theorem satisfaction_category_unrated_user:
  "(case snd (simulate_user_acquisition_base sample_users sample_firms unrated_events) of
      Inl err \<Rightarrow> []
    | Inr df \<Rightarrow>
        map (\<lambda>r. (a_user_id r, a_total_events r, a_avg_satisfaction_score r,
                  a_satisfaction_category r)) (rows df))
   = [(1, 1, Some NaN, ''Low Satisfaction''), (2, 0, None, ''No Feedback'')]"
  by code_simp

section \<open>Faults of loops and lookups\<close>

lemma bindE_Inr_iff: "bindE m f = Inr y \<longleftrightarrow> (\<exists>x. m = Inr x \<and> f x = Inr y)"
  by (cases m) (simp_all add: bindE_def)

lemma bindE_Inl_iff: "bindE m f = Inl err \<longleftrightarrow> m = Inl err \<or> (\<exists>x. m = Inr x \<and> f x = Inl err)"
  by (cases m) (simp_all add: bindE_def)

lemma for_each_Inr_D: "for_each f xs = Inr ys \<Longrightarrow> list_all2 (\<lambda>x y. f x = Inr y) xs ys"
proof (induction xs arbitrary: ys)
  case Nil
  then show ?case by simp
next
  case (Cons x xs)
  from Cons.prems obtain y where fx: "f x = Inr y"
    by (cases "f x") simp_all
  from Cons.prems fx obtain zs where rest: "for_each f xs = Inr zs"
    by (cases "for_each f xs") simp_all
  from Cons.prems fx rest have "ys = y # zs" by simp
  moreover from rest have "list_all2 (\<lambda>x y. f x = Inr y) xs zs" by (rule Cons.IH)
  ultimately show ?case using fx by simp
qed

lemma for_each_Inr_I: "list_all2 (\<lambda>x y. f x = Inr y) xs ys \<Longrightarrow> for_each f xs = Inr ys"
  by (induction rule: list_all2_induct) simp_all

lemma for_each_Inr_iff: "for_each f xs = Inr ys \<longleftrightarrow> list_all2 (\<lambda>x y. f x = Inr y) xs ys"
  using for_each_Inr_D for_each_Inr_I by blast

lemma for_each_Inl: "for_each f xs = Inl err \<Longrightarrow> \<exists>x \<in> set xs. f x = Inl err"
proof (induction xs)
  case Nil
  then show ?case by simp
next
  case (Cons x xs)
  show ?case
  proof (cases "f x")
    case (Inl e)
    with Cons.prems show ?thesis by simp
  next
    case (Inr y)
    with Cons.prems have "for_each f xs = Inl err"
      by (cases "for_each f xs") simp_all
    with Cons.IH show ?thesis by auto
  qed
qed

lemma for_each_total:
  "(\<And>x. x \<in> set xs \<Longrightarrow> \<exists>y. f x = Inr y) \<Longrightarrow> \<exists>ys. for_each f xs = Inr ys"
proof (induction xs)
  case Nil
  show ?case by simp
next
  case (Cons x xs)
  from Cons.prems obtain y where "f x = Inr y" by auto
  moreover from Cons obtain ys where "for_each f xs = Inr ys" by auto
  ultimately show ?case by simp
qed

lemma for_each_length: "for_each f xs = Inr ys \<Longrightarrow> length ys = length xs"
  by (simp add: for_each_Inr_iff list_all2_lengthD)

lemma iloc0_Inl: "iloc0 xs = Inl err \<longleftrightarrow> err = IndexError \<and> xs = []"
  by (cases xs) (auto simp: iloc0_def)

lemma iloc0_Inr: "iloc0 xs = Inr x \<longleftrightarrow> (\<exists>ys. xs = x # ys)"
  by (cases xs) (auto simp: iloc0_def)

lemma iloc0_filter_Inl:
  "iloc0 (filter P xs) = Inl err \<longleftrightarrow> err = IndexError \<and> (\<forall>x \<in> set xs. \<not> P x)"
  by (simp add: iloc0_Inl filter_empty_conv)

lemma iloc0_filter_Inr: "iloc0 (filter P xs) = Inr x \<Longrightarrow> x \<in> set xs \<and> P x"
proof -
  assume "iloc0 (filter P xs) = Inr x"
  then obtain ys where "filter P xs = x # ys" by (auto simp: iloc0_Inr)
  then have "x \<in> set (filter P xs)" by simp
  then show ?thesis by simp
qed

lemma iloc0_filter_ex: "(\<exists>x. iloc0 (filter P xs) = Inr x) \<longleftrightarrow> (\<exists>x \<in> set xs. P x)"
proof -
  have "(\<exists>x. iloc0 (filter P xs) = Inr x) \<longleftrightarrow> filter P xs \<noteq> []"
    by (cases "filter P xs") (simp_all add: iloc0_def)
  then show ?thesis by (simp add: filter_empty_conv)
qed

lemma for_each_Inr_ex: "(\<exists>ys. for_each f xs = Inr ys) \<longleftrightarrow> (\<forall>x \<in> set xs. \<exists>y. f x = Inr y)"
proof
  assume "\<exists>ys. for_each f xs = Inr ys"
  then obtain ys where "list_all2 (\<lambda>x y. f x = Inr y) xs ys"
    using for_each_Inr_D by blast
  then show "\<forall>x \<in> set xs. \<exists>y. f x = Inr y"
    by (induction rule: list_all2_induct) simp_all
next
  assume "\<forall>x \<in> set xs. \<exists>y. f x = Inr y"
  then show "\<exists>ys. for_each f xs = Inr ys"
    using for_each_total [of xs f] by blast
qed

lemma set_enumerate_rows: "snd ` set (enumerate_rows xs) = set xs"
proof -
  have "map snd (enumerate_rows xs) = xs"
    by (simp add: enumerate_rows_def)
  then have "set (map snd (enumerate_rows xs)) = set xs" by simp
  then show ?thesis by simp
qed

lemma event_performance_record_Inl:
  "event_performance_record users firms ie = Inl err \<longleftrightarrow>
     err = IndexError \<and>
     ((\<forall>u \<in> set users. user_id u \<noteq> ev_user_id (snd ie))
      \<or> (\<forall>f \<in> set firms. firm_id f \<noteq> ev_firm_id (snd ie)))"
proof -
  let ?U = "iloc0 (filter (\<lambda>u. user_id u = ev_user_id (snd ie)) users)"
  let ?F = "iloc0 (filter (\<lambda>f. firm_id f = ev_firm_id (snd ie)) firms)"
  have u: "(\<exists>x. ?U = Inr x) \<longleftrightarrow> (\<exists>u \<in> set users. user_id u = ev_user_id (snd ie))"
    by (rule iloc0_filter_ex)
  have f: "(\<exists>x. ?F = Inr x) \<longleftrightarrow> (\<exists>f \<in> set firms. firm_id f = ev_firm_id (snd ie))"
    by (rule iloc0_filter_ex)
  have "event_performance_record users firms ie = Inl err \<longleftrightarrow>
          ?U = Inl err \<or> ((\<exists>x. ?U = Inr x) \<and> ?F = Inl err)"
    by (simp add: event_performance_record_def Let_def bindE_Inl_iff)
  also have "\<dots> \<longleftrightarrow> err = IndexError \<and>
     ((\<forall>u \<in> set users. user_id u \<noteq> ev_user_id (snd ie))
      \<or> (\<forall>f \<in> set firms. firm_id f \<noteq> ev_firm_id (snd ie)))"
    unfolding u iloc0_filter_Inl by blast
  finally show ?thesis .
qed

lemma event_performance_record_Inr_ex:
  "(\<exists>r. event_performance_record users firms ie = Inr r) \<longleftrightarrow>
     (\<exists>u \<in> set users. user_id u = ev_user_id (snd ie))
     \<and> (\<exists>f \<in> set firms. firm_id f = ev_firm_id (snd ie))"
proof -
  have "(\<exists>r. event_performance_record users firms ie = Inr r) \<longleftrightarrow>
          \<not> (\<exists>err. event_performance_record users firms ie = Inl err)"
    by (cases "event_performance_record users firms ie") simp_all
  then show ?thesis
    unfolding event_performance_record_Inl by blast
qed

lemma event_performance_data_Inr_ex:
  "(\<exists>rs. event_performance_data users firms events = Inr rs) \<longleftrightarrow>
     (\<forall>e \<in> set events.
        (\<exists>u \<in> set users. user_id u = ev_user_id e)
        \<and> (\<exists>f \<in> set firms. firm_id f = ev_firm_id e))"
proof -
  have "(\<exists>rs. event_performance_data users firms events = Inr rs) \<longleftrightarrow>
          (\<forall>ie \<in> set (enumerate_rows events).
             (\<exists>u \<in> set users. user_id u = ev_user_id (snd ie))
             \<and> (\<exists>f \<in> set firms. firm_id f = ev_firm_id (snd ie)))"
    unfolding event_performance_data_def for_each_Inr_ex event_performance_record_Inr_ex ..
  also have "\<dots> \<longleftrightarrow> (\<forall>e \<in> snd ` set (enumerate_rows events).
        (\<exists>u \<in> set users. user_id u = ev_user_id e)
        \<and> (\<exists>f \<in> set firms. firm_id f = ev_firm_id e))"
    by blast
  finally show ?thesis unfolding set_enumerate_rows .
qed

lemma event_performance_data_Inl:
  "event_performance_data users firms events = Inl err \<Longrightarrow> err = IndexError"
proof -
  assume "event_performance_data users firms events = Inl err"
  then obtain ie where "event_performance_record users firms ie = Inl err"
    unfolding event_performance_data_def using for_each_Inl by blast
  then show ?thesis by (simp add: event_performance_record_Inl)
qed

lemma event_performance_data_length:
  "event_performance_data users firms events = Inr rs \<Longrightarrow> length rs = length events"
proof -
  assume "event_performance_data users firms events = Inr rs"
  then have "length rs = length (enumerate_rows events)"
    unfolding event_performance_data_def by (rule for_each_length)
  then show ?thesis by (simp add: enumerate_rows_def)
qed

lemma lookup_firm_Inl:
  "lookup_firm firms fid = Inl err \<longleftrightarrow>
     err = IndexError \<and> (\<exists>i. fid = Some i \<and> i \<noteq> 0 \<and> (\<forall>f \<in> set firms. firm_id f \<noteq> i))"
proof (cases fid)
  case None
  then show ?thesis by (simp add: lookup_firm_def)
next
  case (Some i)
  then show ?thesis
    by (simp add: lookup_firm_def bindE_Inl_iff iloc0_filter_Inl)
qed

lemma acquisition_base_record_Inl:
  assumes "\<exists>u \<in> set users. user_id u = uid"
  shows "acquisition_base_record users firms events uid = Inl err \<longleftrightarrow>
     err = IndexError \<and>
     (\<exists>e es. filter (\<lambda>e. ev_user_id e = uid) events = e # es \<and> ev_firm_id e \<noteq> 0
        \<and> (\<forall>f \<in> set firms. firm_id f \<noteq> ev_firm_id e))"
proof -
  let ?fid = "case filter (\<lambda>e. ev_user_id e = uid) events of [] \<Rightarrow> None
              | e # _ \<Rightarrow> Some (ev_firm_id e)"
  from assms obtain ui where ui: "iloc0 (filter (\<lambda>u. user_id u = uid) users) = Inr ui"
    using iloc0_filter_ex [of "\<lambda>u. user_id u = uid" users] by blast
  have "acquisition_base_record users firms events uid = Inl err \<longleftrightarrow>
          lookup_firm firms ?fid = Inl err"
    by (simp add: acquisition_base_record_def ui bindE_Inl_iff Let_def)
  also have "\<dots> \<longleftrightarrow> err = IndexError \<and>
     (\<exists>e es. filter (\<lambda>e. ev_user_id e = uid) events = e # es \<and> ev_firm_id e \<noteq> 0
        \<and> (\<forall>f \<in> set firms. firm_id f \<noteq> ev_firm_id e))"
    unfolding lookup_firm_Inl
    by (cases "filter (\<lambda>e. ev_user_id e = uid) events") auto
  finally show ?thesis .
qed

section \<open>Missing references\<close>

text \<open>
  C1 (as amended). An event whose \<open>user_id\<close> or \<open>firm_id\<close> has no matching record is
  not tolerated by the per-event derivation: the only fault the derivation raises is
  IndexError, and it returns a table, one row per event, exactly when every event has a
  matching user and a matching firm. The per-user acquisition derivation raises
  IndexError for a user exactly when that user's first event carries a firm identifier
  that is not 0 and matches no firm record.
\<close>

theorem missing_reference_raises_IndexError:
  "(event_performance_data users firms events = Inl err \<longrightarrow> err = IndexError)
   \<and> ((\<exists>rs. event_performance_data users firms events = Inr rs) \<longleftrightarrow>
        (\<forall>e \<in> set events.
           (\<exists>u \<in> set users. user_id u = ev_user_id e)
           \<and> (\<exists>f \<in> set firms. firm_id f = ev_firm_id e)))
   \<and> (event_performance_data users firms events = Inr rs \<longrightarrow> length rs = length events)
   \<and> ((\<exists>u \<in> set users. user_id u = uid) \<longrightarrow>
        (acquisition_base_record users firms events uid = Inl err \<longleftrightarrow>
           err = IndexError \<and>
           (\<exists>e es. filter (\<lambda>e. ev_user_id e = uid) events = e # es \<and> ev_firm_id e \<noteq> 0
              \<and> (\<forall>f \<in> set firms. firm_id f \<noteq> ev_firm_id e))))"
  using event_performance_data_Inl [of users firms events err]
    event_performance_data_Inr_ex [of users firms events]
    event_performance_data_length [of users firms events rs]
    acquisition_base_record_Inl [of users uid firms events err]
  by blast

theorem missing_reference_raises_IndexError_witness:
  "list_all (\<lambda>e. (\<exists>u \<in> set (rows sample_users). user_id u = ev_user_id e)
                 \<and> (\<exists>f \<in> set (rows sample_firms). firm_id f = ev_firm_id e))
     (rows sample_events)
   \<and> (\<exists>rs. event_performance_data (rows sample_users) (rows sample_firms) (rows sample_events)
          = Inr rs)
   \<and> \<not> (\<forall>e \<in> set (rows orphan_events).
          (\<exists>u \<in> set (rows sample_users). user_id u = ev_user_id e)
          \<and> (\<exists>f \<in> set (rows sample_firms). firm_id f = ev_firm_id e))
   \<and> \<not> (\<exists>rs. event_performance_data (rows sample_users) (rows sample_firms) (rows orphan_events)
          = Inr rs)
   \<and> (\<exists>u \<in> set (rows sample_users). user_id u = 1)
   \<and> acquisition_base_record (rows sample_users) (rows sample_firms) (rows orphan_firm_events) 1
        = Inl IndexError"
  using missing_reference_raises_IndexError
      [of "rows sample_users" "rows sample_firms" "rows sample_events" IndexError "[]" 1]
    missing_reference_raises_IndexError
      [of "rows sample_users" "rows sample_firms" "rows orphan_events" IndexError "[]" 1]
    missing_reference_raises_IndexError
      [of "rows sample_users" "rows sample_firms" "rows orphan_firm_events" IndexError "[]" 1]
  by (simp add: sample_users_def sample_firms_def sample_events_def orphan_events_def
      orphan_firm_events_def)

text \<open>
  C1 as stated fails: one event of the unknown user 9, or one event for the unknown firm 8,
  makes the per-event derivation raise IndexError, and the latter makes the per-user
  acquisition derivation raise it too.
\<close>

theorem missing_reference_counterexample:
  "snd (simulate_event_performance_metrics sample_users sample_firms orphan_events)
     = Inl IndexError
   \<and> snd (simulate_event_performance_metrics sample_users sample_firms orphan_firm_events)
     = Inl IndexError
   \<and> snd (simulate_user_acquisition_base sample_users sample_firms orphan_firm_events)
     = Inl IndexError"
  by code_simp

section \<open>Facts about the combined table\<close>

lemma users_to_datetime:
  "map (\<lambda>u. u\<lparr>user_created_date := to_datetime (user_created_date u)\<rparr>) us = us"
  by (induction us) (simp_all add: to_datetime_def)

lemma events_to_datetime:
  "map (\<lambda>e. e\<lparr>event_created_at := to_datetime (event_created_at e)\<rparr>) es = es"
  by (induction es) (simp_all add: to_datetime_def)

lemma snd_simulate_event_performance_metrics:
  "snd (simulate_event_performance_metrics users_df firms_df events_df) =
     bindE (event_performance_data (rows users_df) (rows firms_df) (rows events_df))
       (\<lambda>data. combined_metrics (DataFrame event_performance_columns data))"
  by (simp add: simulate_event_performance_metrics_def Let_def users_to_datetime
      events_to_datetime)

lemma daily_keys_missing:
  "check_keys (daily_keys @ agg_inputs) (DataFrame event_performance_columns [])
     = Inl (KeyError ''event_date'')"
  by (simp add: check_keys_def DataFrame_def daily_keys_def)

lemma daily_keys_present:
  "find (\<lambda>k. k \<notin> set event_performance_columns) (daily_keys @ agg_inputs) = None"
  by code_simp

lemma weekly_keys_present:
  "find (\<lambda>k. k \<notin> set event_performance_columns) (weekly_keys @ agg_inputs) = None"
  by code_simp

lemma monthly_keys_present:
  "find (\<lambda>k. k \<notin> set event_performance_columns) (monthly_keys @ agg_inputs) = None"
  by code_simp

lemma daily_selected_present: "find (\<lambda>k. k \<notin> set daily_columns) daily_selected = None"
  by code_simp

lemma weekly_selected_present: "find (\<lambda>k. k \<notin> set weekly_columns) weekly_selected = None"
  by code_simp

lemma monthly_selected_present: "find (\<lambda>k. k \<notin> set monthly_columns) monthly_selected = None"
  by code_simp

lemma union_columns:
  "unique (concat [fold set_column daily_added daily_selected,
                   fold set_column weekly_added weekly_selected,
                   fold set_column monthly_added monthly_selected]) = combined_columns"
  by code_simp

lemma combined_metrics_empty:
  "combined_metrics (DataFrame event_performance_columns []) = Inl (KeyError ''event_date'')"
  by (simp add: combined_metrics_def daily_metrics_def daily_keys_missing bindE_def)

lemma combined_metrics_nonempty:
  assumes "data \<noteq> []"
  shows "combined_metrics (DataFrame event_performance_columns data) =
     Inr \<lparr>columns = combined_columns,
          rows = map daily_widen (daily_rows data) @ map weekly_widen (weekly_rows data)
                 @ map monthly_widen (monthly_rows data)\<rparr>"
proof -
  let ?df = "DataFrame event_performance_columns data"
  from assms have cols: "columns ?df = event_performance_columns" and rws: "rows ?df = data"
    by (simp_all add: DataFrame_def)
  have d: "daily_metrics ?df = Inr \<lparr>columns = daily_columns, rows = daily_rows data\<rparr>"
    by (simp add: daily_metrics_def check_keys_def cols rws daily_keys_present bindE_def)
  have w: "weekly_metrics ?df = Inr \<lparr>columns = weekly_columns, rows = weekly_rows data\<rparr>"
    by (simp add: weekly_metrics_def check_keys_def cols rws weekly_keys_present bindE_def)
  have m: "monthly_metrics ?df = Inr \<lparr>columns = monthly_columns, rows = monthly_rows data\<rparr>"
    by (simp add: monthly_metrics_def check_keys_def cols rws monthly_keys_present bindE_def)
  have du: "daily_union \<lparr>columns = daily_columns, rows = daily_rows data\<rparr> =
      Inr \<lparr>columns = fold set_column daily_added daily_selected,
           rows = map daily_widen (daily_rows data)\<rparr>"
    by (simp add: daily_union_def select_and_add_def check_keys_def daily_selected_present
        bindE_def)
  have wu: "weekly_union \<lparr>columns = weekly_columns, rows = weekly_rows data\<rparr> =
      Inr \<lparr>columns = fold set_column weekly_added weekly_selected,
           rows = map weekly_widen (weekly_rows data)\<rparr>"
    by (simp add: weekly_union_def select_and_add_def check_keys_def weekly_selected_present
        bindE_def)
  have mu: "monthly_union \<lparr>columns = monthly_columns, rows = monthly_rows data\<rparr> =
      Inr \<lparr>columns = fold set_column monthly_added monthly_selected,
           rows = map monthly_widen (monthly_rows data)\<rparr>"
    by (simp add: monthly_union_def select_and_add_def check_keys_def monthly_selected_present
        bindE_def)
  have "combined_metrics ?df =
      Inr (concat_frames
        [\<lparr>columns = fold set_column daily_added daily_selected,
           rows = map daily_widen (daily_rows data)\<rparr>,
         \<lparr>columns = fold set_column weekly_added weekly_selected,
           rows = map weekly_widen (weekly_rows data)\<rparr>,
         \<lparr>columns = fold set_column monthly_added monthly_selected,
           rows = map monthly_widen (monthly_rows data)\<rparr>])"
    unfolding combined_metrics_def d w m bindE_def sum.case du wu mu ..
  also have "\<dots> = Inr \<lparr>columns = combined_columns,
          rows = map daily_widen (daily_rows data) @ map weekly_widen (weekly_rows data)
                 @ map monthly_widen (monthly_rows data)\<rparr>"
    using union_columns by (simp add: concat_frames_def)
  finally show ?thesis .
qed

lemma simulate_event_performance_metrics_Inr_iff:
  "snd (simulate_event_performance_metrics users_df firms_df events_df) = Inr cm \<longleftrightarrow>
     (\<exists>data. event_performance_data (rows users_df) (rows firms_df) (rows events_df) = Inr data
        \<and> data \<noteq> []
        \<and> cm = \<lparr>columns = combined_columns,
                 rows = map daily_widen (daily_rows data) @ map weekly_widen (weekly_rows data)
                        @ map monthly_widen (monthly_rows data)\<rparr>)"
proof -
  have step: "combined_metrics (DataFrame event_performance_columns data) = Inr cm \<longleftrightarrow>
      data \<noteq> [] \<and> cm = \<lparr>columns = combined_columns,
                 rows = map daily_widen (daily_rows data) @ map weekly_widen (weekly_rows data)
                        @ map monthly_widen (monthly_rows data)\<rparr>" for data
  proof (cases "data = []")
    case True
    then show ?thesis by (simp add: combined_metrics_empty)
  next
    case False
    then show ?thesis by (auto simp: combined_metrics_nonempty)
  qed
  show ?thesis
    unfolding snd_simulate_event_performance_metrics bindE_Inr_iff step ..
qed

lemma event_performance_data_Nil: "event_performance_data users firms [] = Inr []"
  by (simp add: event_performance_data_def enumerate_rows_def)

section \<open>Empty input\<close>

text \<open>
  C2 (as amended). With an empty Events input the per-event table has neither rows nor
  column labels, so the daily aggregation, the first of the three, raises
  KeyError('event_date'): no grain yields groups and no combined table is produced. The
  run returns a combined table exactly when Events is not empty and every event has a
  matching user and a matching firm, and that table carries the header of 20 columns.
\<close>

theorem empty_events_raise_KeyError:
  "(rows events_df = [] \<longrightarrow>
      snd (simulate_event_performance_metrics users_df firms_df events_df)
        = Inl (KeyError ''event_date''))
   \<and> ((\<exists>cm. snd (simulate_event_performance_metrics users_df firms_df events_df) = Inr cm) \<longleftrightarrow>
        rows events_df \<noteq> []
        \<and> (\<forall>e \<in> set (rows events_df).
             (\<exists>u \<in> set (rows users_df). user_id u = ev_user_id e)
             \<and> (\<exists>f \<in> set (rows firms_df). firm_id f = ev_firm_id e)))
   \<and> (snd (simulate_event_performance_metrics users_df firms_df events_df) = Inr cm \<longrightarrow>
        columns cm = combined_columns)"
proof (intro conjI impI)
  assume "rows events_df = []"
  then show "snd (simulate_event_performance_metrics users_df firms_df events_df)
        = Inl (KeyError ''event_date'')"
    by (simp add: snd_simulate_event_performance_metrics event_performance_data_Nil bindE_def
        combined_metrics_empty)
next
  let ?epd = "event_performance_data (rows users_df) (rows firms_df) (rows events_df)"
  have "(\<exists>cm. snd (simulate_event_performance_metrics users_df firms_df events_df) = Inr cm)
      \<longleftrightarrow> (\<exists>data. ?epd = Inr data \<and> data \<noteq> [])"
    unfolding simulate_event_performance_metrics_Inr_iff by blast
  also have "\<dots> \<longleftrightarrow> (\<exists>data. ?epd = Inr data) \<and> rows events_df \<noteq> []"
    using event_performance_data_length [of "rows users_df" "rows firms_df" "rows events_df"]
    by (metis length_0_conv)
  finally show "(\<exists>cm. snd (simulate_event_performance_metrics users_df firms_df events_df)
        = Inr cm) \<longleftrightarrow>
        rows events_df \<noteq> []
        \<and> (\<forall>e \<in> set (rows events_df).
             (\<exists>u \<in> set (rows users_df). user_id u = ev_user_id e)
             \<and> (\<exists>f \<in> set (rows firms_df). firm_id f = ev_firm_id e))"
    unfolding event_performance_data_Inr_ex by blast
next
  assume "snd (simulate_event_performance_metrics users_df firms_df events_df) = Inr cm"
  then show "columns cm = combined_columns"
    unfolding simulate_event_performance_metrics_Inr_iff by auto
qed

theorem empty_events_raise_KeyError_witness:
  "rows no_events = []
   \<and> snd (simulate_event_performance_metrics sample_users sample_firms no_events)
       = Inl (KeyError ''event_date'')
   \<and> rows sample_events \<noteq> []
   \<and> list_all (\<lambda>e. (\<exists>u \<in> set (rows sample_users). user_id u = ev_user_id e)
                   \<and> (\<exists>f \<in> set (rows sample_firms). firm_id f = ev_firm_id e))
       (rows sample_events)
   \<and> (\<exists>cm. snd (simulate_event_performance_metrics sample_users sample_firms sample_events)
         = Inr cm)"
  using empty_events_raise_KeyError [of no_events sample_users sample_firms "\<lparr>columns = [], rows = []\<rparr>"]
    empty_events_raise_KeyError [of sample_events sample_users sample_firms "\<lparr>columns = [], rows = []\<rparr>"]
  by (simp add: sample_users_def sample_firms_def sample_events_def no_events_def)

text \<open>
  C2 as stated fails: on zero events the run ends in KeyError('event_date') instead of
  three empty grains and a header-only table.
\<close>

theorem empty_events_counterexample:
  "rows no_events = []
   \<and> snd (simulate_event_performance_metrics sample_users sample_firms no_events)
       = Inl (KeyError ''event_date'')"
  by code_simp

section \<open>Facts about groups\<close>

lemma set_dropna: "k \<in> set (dropna xs) \<longleftrightarrow> Some k \<in> set xs"
  by (induction xs) (auto simp: dropna_def)


lemma groupby_member:
  assumes "kg \<in> set (groupby key rs)"
  shows "snd kg = filter (\<lambda>r. key r = Some (fst kg)) rs \<and> snd kg \<noteq> []"
proof -
  from assms obtain k where k: "k \<in> set (sort (remdups (dropna (map key rs))))"
    and kg: "kg = (k, filter (\<lambda>r. key r = Some k) rs)"
    by (auto simp: groupby_def)
  from k have "Some k \<in> set (map key rs)" by (simp add: set_dropna)
  then obtain r where "r \<in> set rs" "key r = Some k" by auto
  then have "filter (\<lambda>r. key r = Some k) rs \<noteq> []"
    by (auto simp: filter_empty_conv)
  with kg show ?thesis by simp
qed

lemma count_by_key:
  assumes "finite K" and "\<forall>r \<in> set rs. \<forall>k. key r = Some k \<longrightarrow> k \<in> K"
  shows "(\<Sum>k \<in> K. length (filter (\<lambda>r. key r = Some k) rs))
           = length (filter (\<lambda>r. key r \<noteq> None) rs)"
  using assms(2)
proof (induction rs)
  case Nil
  show ?case by simp
next
  case (Cons r rs)
  then have IH: "(\<Sum>k \<in> K. length (filter (\<lambda>r. key r = Some k) rs))
           = length (filter (\<lambda>r. key r \<noteq> None) rs)" by simp
  show ?case
  proof (cases "key r")
    case None
    then show ?thesis using IH by simp
  next
    case (Some k0)
    with Cons.prems have k0: "k0 \<in> K" by simp
    have "(\<Sum>k \<in> K. length (filter (\<lambda>r. key r = Some k) (r # rs)))
        = (\<Sum>k \<in> K. length (filter (\<lambda>r. key r = Some k) rs) + (if k = k0 then 1 else 0))"
      using Some by (intro sum.cong) auto
    also have "\<dots> = (\<Sum>k \<in> K. length (filter (\<lambda>r. key r = Some k) rs)) + 1"
      using assms(1) k0 by (simp add: sum.distrib)
    finally show ?thesis using IH Some by simp
  qed
qed

lemma groupby_counts:
  "sum_list (map (\<lambda>kg. length (snd kg)) (groupby key rs))
     = length (filter (\<lambda>r. key r \<noteq> None) rs)"
proof -
  let ?ks = "sort (remdups (dropna (map key rs)))"
  have d: "distinct ?ks" by simp
  have "sum_list (map (\<lambda>kg. length (snd kg)) (groupby key rs))
      = sum_list (map (\<lambda>k. length (filter (\<lambda>r. key r = Some k) rs)) ?ks)"
    by (simp add: groupby_def comp_def)
  also have "\<dots> = (\<Sum>k \<in> set ?ks. length (filter (\<lambda>r. key r = Some k) rs))"
    using d by (rule sum_list_distinct_conv_sum_set)
  also have "\<dots> = length (filter (\<lambda>r. key r \<noteq> None) rs)"
  proof (rule count_by_key)
    show "finite (set ?ks)" by simp
    show "\<forall>r \<in> set rs. \<forall>k. key r = Some k \<longrightarrow> k \<in> set ?ks"
      by (auto simp: set_dropna intro: rev_image_eqI)
  qed
  finally show ?thesis .
qed

lemma nunique_pos: "xs \<noteq> [] \<Longrightarrow> 0 < nunique xs"
  by (simp add: nunique_def)

lemma fl_round2_Num_ex: "\<exists>q. fl_round2 (Num x) = Num q"
  by (rule exI) (rule fl_round2.simps(1))

lemma per_user_Num:
  assumes "0 < n"
  shows "\<exists>q. per_user a n = Num q"
proof -
  from assms have "per_user a n = fl_round2 (Num (of_int a / of_nat n))"
    by (simp add: per_user_def)
  then show ?thesis
    unfolding \<open>per_user a n = fl_round2 (Num (of_int a / of_nat n))\<close>
    by (simp only: fl_round2_Num_ex)
qed

lemma length_shift1: "length (shift1 seen xs) = length xs"
  by (induction xs arbitrary: seen) simp_all

lemma daily_widen_row:
  assumes "kg \<in> set (groupby daily_key data)"
  shows "time_grain (daily_widen (daily_row_of kg)) = ''daily''
     \<and> (\<exists>x. c_documents_per_user (daily_widen (daily_row_of kg)) = Some (Num x))
     \<and> (\<exists>y. c_events_per_user (daily_widen (daily_row_of kg)) = Some (Num y))"
proof -
  obtain d t ti sg g where kg: "kg = ((d, t, ti, sg), g)"
    by (metis prod.exhaust)
  from groupby_member [OF assms] have "snd kg \<noteq> []" by (rule conjunct2)
  with kg have "g \<noteq> []" by simp
  then have u: "0 < unique_users (aggregate g)"
    by (simp add: aggregate_def nunique_pos)
  from per_user_Num [OF u] obtain x
    where x: "per_user (total_documents_processed (aggregate g)) (unique_users (aggregate g)) = Num x"
    by blast
  from per_user_Num [OF u] obtain y
    where y: "per_user (int (total_events (aggregate g))) (unique_users (aggregate g)) = Num y"
    by blast
  show ?thesis
    by (simp add: kg daily_widen_def daily_row_of_def Let_def x y)
qed

lemma monthly_widen_row:
  assumes "kg \<in> set (groupby monthly_key data)"
  shows "time_grain (monthly_widen (monthly_row_of kg)) = ''monthly''
     \<and> (\<exists>x. c_documents_per_user (monthly_widen (monthly_row_of kg)) = Some (Num x))
     \<and> (\<exists>y. c_events_per_user (monthly_widen (monthly_row_of kg)) = Some (Num y))"
proof -
  obtain d t ti sg g where kg: "kg = ((d, t, ti, sg), g)"
    by (metis prod.exhaust)
  from groupby_member [OF assms] have "snd kg \<noteq> []" by (rule conjunct2)
  with kg have "g \<noteq> []" by simp
  then have u: "0 < unique_users (aggregate g)"
    by (simp add: aggregate_def nunique_pos)
  from per_user_Num [OF u] obtain x
    where x: "per_user (total_documents_processed (aggregate g)) (unique_users (aggregate g)) = Num x"
    by blast
  from per_user_Num [OF u] obtain y
    where y: "per_user (int (total_events (aggregate g))) (unique_users (aggregate g)) = Num y"
    by blast
  show ?thesis
    by (simp add: kg monthly_widen_def monthly_row_of_def Let_def x y)
qed

lemma weekly_widen_row:
  "time_grain (weekly_widen (weekly_row_of kg prev)) = ''weekly''
   \<and> c_user_segment (weekly_widen (weekly_row_of kg prev)) = None
   \<and> c_documents_per_user (weekly_widen (weekly_row_of kg prev)) = None
   \<and> c_events_per_user (weekly_widen (weekly_row_of kg prev)) = None
   \<and> c_satisfaction_performance (weekly_widen (weekly_row_of kg prev)) = None
   \<and> c_volume_performance (weekly_widen (weekly_row_of kg prev)) = None"
proof -
  obtain w t ti g where kg: "kg = ((w, t, ti), g)"
    by (metis prod.exhaust)
  show ?thesis
    by (simp add: kg weekly_widen_def weekly_row_of_def Let_def)
qed

lemma weekly_rows_member:
  assumes "r \<in> set (weekly_rows data)"
  shows "\<exists>kg prev. kg \<in> set (groupby weekly_key data) \<and> r = weekly_row_of kg prev"
proof -
  from assms obtain kg prev where "(kg, prev) \<in> set (zip (groupby weekly_key data)
      (shift1 [] (map series_of (groupby weekly_key data))))" and "r = weekly_row_of kg prev"
    by (auto simp: weekly_rows_def Let_def)
  then have "kg \<in> set (groupby weekly_key data) \<and> r = weekly_row_of kg prev"
    by (simp add: set_zip_leftD)
  then show ?thesis by blast
qed

section \<open>The widened schema\<close>

text \<open>
  C4. In the combined table every row carries its grain tag, and the columns that only
  some grains compute are columns of the table. On every daily and monthly row
  \<open>documents_per_user\<close> and \<open>events_per_user\<close> hold a finite number. On every weekly row
  these two columns, \<open>user_segment\<close> and the two performance columns hold the explicit
  \<^verbatim>\<open>None\<close>, which is not the number zero.
\<close>

theorem grain_columns_in_combined_table:
  assumes "snd (simulate_event_performance_metrics users_df firms_df events_df) = Inr cm"
  shows "set [''time_grain'', ''user_segment'', ''documents_per_user'', ''events_per_user'',
              ''satisfaction_performance'', ''volume_performance'']
           \<subseteq> set (columns cm)
     \<and> (\<forall>r \<in> set (rows cm).
          (time_grain r = ''daily'' \<or> time_grain r = ''weekly'' \<or> time_grain r = ''monthly'')
          \<and> (time_grain r = ''weekly'' \<longrightarrow>
                c_documents_per_user r = None \<and> c_events_per_user r = None
                \<and> c_user_segment r = None \<and> c_satisfaction_performance r = None
                \<and> c_volume_performance r = None
                \<and> c_documents_per_user r \<noteq> Some (Num 0)
                \<and> c_events_per_user r \<noteq> Some (Num 0))
          \<and> (time_grain r \<noteq> ''weekly'' \<longrightarrow>
                (\<exists>x. c_documents_per_user r = Some (Num x))
                \<and> (\<exists>y. c_events_per_user r = Some (Num y))))"
proof -
  from assms obtain data where
    cm: "cm = \<lparr>columns = combined_columns,
               rows = map daily_widen (daily_rows data) @ map weekly_widen (weekly_rows data)
                      @ map monthly_widen (monthly_rows data)\<rparr>"
    unfolding simulate_event_performance_metrics_Inr_iff by blast
  have cols: "set [''time_grain'', ''user_segment'', ''documents_per_user'', ''events_per_user'',
              ''satisfaction_performance'', ''volume_performance'']
           \<subseteq> set (columns cm)"
    by (simp add: cm combined_columns_def)
  have row: "(time_grain r = ''daily'' \<or> time_grain r = ''weekly'' \<or> time_grain r = ''monthly'')
          \<and> (time_grain r = ''weekly'' \<longrightarrow>
                c_documents_per_user r = None \<and> c_events_per_user r = None
                \<and> c_user_segment r = None \<and> c_satisfaction_performance r = None
                \<and> c_volume_performance r = None
                \<and> c_documents_per_user r \<noteq> Some (Num 0)
                \<and> c_events_per_user r \<noteq> Some (Num 0))
          \<and> (time_grain r \<noteq> ''weekly'' \<longrightarrow>
                (\<exists>x. c_documents_per_user r = Some (Num x))
                \<and> (\<exists>y. c_events_per_user r = Some (Num y)))"
    if r: "r \<in> set (rows cm)" for r
  proof -
    from r cm have "r \<in> daily_widen ` set (daily_rows data)
        \<or> r \<in> weekly_widen ` set (weekly_rows data)
        \<or> r \<in> monthly_widen ` set (monthly_rows data)"
      by auto
    then show ?thesis
    proof (elim disjE imageE)
      fix x
      assume rx: "r = daily_widen x" and x: "x \<in> set (daily_rows data)"
      from x obtain kg where kg: "kg \<in> set (groupby daily_key data)" and "x = daily_row_of kg"
        unfolding daily_rows_def by auto
      with rx have "r = daily_widen (daily_row_of kg)" by simp
      with daily_widen_row [OF kg] show ?thesis by simp
    next
      fix x
      assume rx: "r = weekly_widen x" and x: "x \<in> set (weekly_rows data)"
      from weekly_rows_member [OF x] obtain kg prev where "x = weekly_row_of kg prev" by blast
      with rx have "r = weekly_widen (weekly_row_of kg prev)" by simp
      with weekly_widen_row [of kg prev] show ?thesis by simp
    next
      fix x
      assume rx: "r = monthly_widen x" and x: "x \<in> set (monthly_rows data)"
      from x obtain kg where kg: "kg \<in> set (groupby monthly_key data)"
        and "x = monthly_row_of kg"
        unfolding monthly_rows_def by auto
      with rx have "r = monthly_widen (monthly_row_of kg)" by simp
      with monthly_widen_row [OF kg] show ?thesis by simp
    qed
  qed
  from cols row show ?thesis by blast
qed

theorem grain_columns_in_combined_table_witness:
  "(\<exists>cm. snd (simulate_event_performance_metrics sample_users sample_firms sample_events)
            = Inr cm
        \<and> length (rows cm) = 9
        \<and> set [''time_grain'', ''user_segment'', ''documents_per_user'', ''events_per_user'',
                 ''satisfaction_performance'', ''volume_performance''] \<subseteq> set (columns cm)
        \<and> (\<forall>r \<in> set (rows cm).
              (time_grain r = ''weekly'' \<longrightarrow> c_documents_per_user r = None)
              \<and> (time_grain r \<noteq> ''weekly'' \<longrightarrow>
                    (\<exists>x. c_documents_per_user r = Some (Num x)))))"
proof -
  obtain cm where cm: "snd (simulate_event_performance_metrics sample_users sample_firms
      sample_events) = Inr cm" and len: "length (rows cm) = 9"
  proof -
    have "(case snd (simulate_event_performance_metrics sample_users sample_firms sample_events)
           of Inl err \<Rightarrow> 0 | Inr cm \<Rightarrow> length (rows cm)) = 9"
      by code_simp
    then show ?thesis
      using that
      by (cases "snd (simulate_event_performance_metrics sample_users sample_firms
            sample_events)") simp_all
  qed
  from grain_columns_in_combined_table [OF cm] cm len show ?thesis by blast
qed

lemma daily_key_None: "daily_key r \<noteq> None \<longleftrightarrow> p_event_type r \<noteq> None \<and> p_user_title r \<noteq> None"
  by (cases "p_event_type r"; cases "p_user_title r") (simp_all add: daily_key_def)

lemma weekly_key_None: "weekly_key r \<noteq> None \<longleftrightarrow> p_event_type r \<noteq> None \<and> p_user_title r \<noteq> None"
  by (cases "p_event_type r"; cases "p_user_title r") (simp_all add: weekly_key_def)

lemma monthly_key_None: "monthly_key r \<noteq> None \<longleftrightarrow> p_event_type r \<noteq> None \<and> p_user_title r \<noteq> None"
  by (cases "p_event_type r"; cases "p_user_title r") (simp_all add: monthly_key_def)

lemma daily_row_total: "total_events (d_agg (daily_row_of kg)) = length (snd kg)"
proof -
  obtain d t ti sg g where kg: "kg = ((d, t, ti, sg), g)" by (metis prod.exhaust)
  show ?thesis by (simp add: kg daily_row_of_def Let_def aggregate_def)
qed

lemma monthly_row_total: "total_events (m_agg (monthly_row_of kg)) = length (snd kg)"
proof -
  obtain d t ti sg g where kg: "kg = ((d, t, ti, sg), g)" by (metis prod.exhaust)
  show ?thesis by (simp add: kg monthly_row_of_def Let_def aggregate_def)
qed

lemma weekly_row_total: "total_events (w_agg (weekly_row_of kg prev)) = length (snd kg)"
proof -
  obtain w t ti g where kg: "kg = ((w, t, ti), g)" by (metis prod.exhaust)
  show ?thesis by (simp add: kg weekly_row_of_def Let_def aggregate_def)
qed

lemma map_map2_left:
  assumes "length xs = length ys" and "\<And>x y. f (g x y) = h x"
  shows "map f (map2 g xs ys) = map h xs"
  using assms(1) by (induction xs ys rule: list_induct2) (simp_all add: assms(2))

lemma weekly_rows_totals:
  "map (\<lambda>r. total_events (w_agg r)) (weekly_rows rs)
     = map (\<lambda>kg. length (snd kg)) (groupby weekly_key rs)"
  unfolding weekly_rows_def Let_def
  by (rule map_map2_left) (simp_all add: length_shift1 weekly_row_total)

lemma event_performance_record_event_type:
  assumes "event_performance_record users firms ie = Inr r"
  shows "p_event_type r = event_type (snd ie)"
proof (cases "iloc0 (filter (\<lambda>u. user_id u = ev_user_id (snd ie)) users)")
  case (Inl e)
  with assms show ?thesis
    by (simp add: event_performance_record_def Let_def bindE_def)
next
  case U: (Inr ui)
  show ?thesis
  proof (cases "iloc0 (filter (\<lambda>f. firm_id f = ev_firm_id (snd ie)) firms)")
    case (Inl e)
    with assms U show ?thesis
      by (simp add: event_performance_record_def Let_def bindE_def)
  next
    case (Inr fi)
    with assms U show ?thesis
      by (auto simp add: event_performance_record_def Let_def bindE_def)
  qed
qed

lemma list_all2_map_eq:
  assumes "list_all2 P xs ys" and "\<And>x y. P x y \<Longrightarrow> f y = g x"
  shows "map f ys = map g xs"
  using assms(1) by (induction rule: list_all2_induct) (simp_all add: assms(2))

lemma event_performance_data_event_types:
  assumes "event_performance_data users firms events = Inr rs"
  shows "map p_event_type rs = map event_type events"
proof -
  from assms have "list_all2 (\<lambda>ie r. event_performance_record users firms ie = Inr r)
      (enumerate_rows events) rs"
    unfolding event_performance_data_def by (rule for_each_Inr_D)
  then have "map p_event_type rs = map (\<lambda>ie. event_type (snd ie)) (enumerate_rows events)"
    by (rule list_all2_map_eq) (rule event_performance_record_event_type)
  also have "\<dots> = map event_type (map snd (enumerate_rows events))" by simp
  also have "map snd (enumerate_rows events) = events" by (simp add: enumerate_rows_def)
  finally show ?thesis .
qed

section \<open>Counts per grain\<close>

text \<open>
  C8. When the per-event derivation returns its table, the table has one row per input
  event, with the event's type, and for each of the three grains the event counts of all
  groups add up to the number of rows whose partition keys are all present, that is whose
  event type and user title are not missing (date, week, month and segment never are).
\<close>

theorem group_counts_sum_to_events:
  assumes "event_performance_data users firms events = Inr rs"
  shows "length rs = length events
     \<and> map p_event_type rs = map event_type events
     \<and> sum_list (map (\<lambda>r. total_events (d_agg r)) (daily_rows rs))
         = length (filter (\<lambda>r. p_event_type r \<noteq> None \<and> p_user_title r \<noteq> None) rs)
     \<and> sum_list (map (\<lambda>r. total_events (w_agg r)) (weekly_rows rs))
         = length (filter (\<lambda>r. p_event_type r \<noteq> None \<and> p_user_title r \<noteq> None) rs)
     \<and> sum_list (map (\<lambda>r. total_events (m_agg r)) (monthly_rows rs))
         = length (filter (\<lambda>r. p_event_type r \<noteq> None \<and> p_user_title r \<noteq> None) rs)"
proof -
  have d: "sum_list (map (\<lambda>r. total_events (d_agg r)) (daily_rows rs))
         = length (filter (\<lambda>r. p_event_type r \<noteq> None \<and> p_user_title r \<noteq> None) rs)"
  proof -
    have "sum_list (map (\<lambda>r. total_events (d_agg r)) (daily_rows rs))
        = sum_list (map (\<lambda>kg. length (snd kg)) (groupby daily_key rs))"
      by (simp add: daily_rows_def comp_def daily_row_total)
    also have "\<dots> = length (filter (\<lambda>r. daily_key r \<noteq> None) rs)"
      by (rule groupby_counts)
    also have "(\<lambda>r. daily_key r \<noteq> None)
        = (\<lambda>r. p_event_type r \<noteq> None \<and> p_user_title r \<noteq> None)"
      by (rule ext) (rule daily_key_None)
    finally show ?thesis .
  qed
  have w: "sum_list (map (\<lambda>r. total_events (w_agg r)) (weekly_rows rs))
         = length (filter (\<lambda>r. p_event_type r \<noteq> None \<and> p_user_title r \<noteq> None) rs)"
  proof -
    have "sum_list (map (\<lambda>r. total_events (w_agg r)) (weekly_rows rs))
        = sum_list (map (\<lambda>kg. length (snd kg)) (groupby weekly_key rs))"
      by (simp add: weekly_rows_totals)
    also have "\<dots> = length (filter (\<lambda>r. weekly_key r \<noteq> None) rs)"
      by (rule groupby_counts)
    also have "(\<lambda>r. weekly_key r \<noteq> None)
        = (\<lambda>r. p_event_type r \<noteq> None \<and> p_user_title r \<noteq> None)"
      by (rule ext) (rule weekly_key_None)
    finally show ?thesis .
  qed
  have m: "sum_list (map (\<lambda>r. total_events (m_agg r)) (monthly_rows rs))
         = length (filter (\<lambda>r. p_event_type r \<noteq> None \<and> p_user_title r \<noteq> None) rs)"
  proof -
    have "sum_list (map (\<lambda>r. total_events (m_agg r)) (monthly_rows rs))
        = sum_list (map (\<lambda>kg. length (snd kg)) (groupby monthly_key rs))"
      by (simp add: monthly_rows_def comp_def monthly_row_total)
    also have "\<dots> = length (filter (\<lambda>r. monthly_key r \<noteq> None) rs)"
      by (rule groupby_counts)
    also have "(\<lambda>r. monthly_key r \<noteq> None)
        = (\<lambda>r. p_event_type r \<noteq> None \<and> p_user_title r \<noteq> None)"
      by (rule ext) (rule monthly_key_None)
    finally show ?thesis .
  qed
  from event_performance_data_length [OF assms] event_performance_data_event_types [OF assms]
    d w m
  show ?thesis by blast
qed

theorem group_counts_sum_to_events_witness:
  "event_performance_data (rows sample_users) (rows sample_firms) (rows untyped_events)
     = Inr untyped_rows
   \<and> length untyped_rows = 2
   \<and> length (filter (\<lambda>r. p_event_type r \<noteq> None \<and> p_user_title r \<noteq> None) untyped_rows) = 1
   \<and> sum_list (map (\<lambda>r. total_events (d_agg r)) (daily_rows untyped_rows)) = 1
   \<and> sum_list (map (\<lambda>r. total_events (w_agg r)) (weekly_rows untyped_rows)) = 1
   \<and> sum_list (map (\<lambda>r. total_events (m_agg r)) (monthly_rows untyped_rows)) = 1"
proof -
  have ev: "event_performance_data (rows sample_users) (rows sample_firms) (rows untyped_events)
     = Inr untyped_rows"
    by code_simp
  have n: "length (filter (\<lambda>r. p_event_type r \<noteq> None \<and> p_user_title r \<noteq> None) untyped_rows)
     = 1"
    by code_simp
  have len: "length (rows untyped_events) = 2"
    by (simp add: untyped_events_def)
  from group_counts_sum_to_events [OF ev] ev n len show ?thesis by simp
qed

lemma list_all2_right_member:
  assumes "list_all2 P xs ys" and "y \<in> set ys"
  shows "\<exists>x \<in> set xs. P x y"
  using assms by (induction rule: list_all2_induct) auto

lemma for_each_member:
  assumes "for_each f xs = Inr ys" and "y \<in> set ys"
  shows "\<exists>x \<in> set xs. f x = Inr y"
  using for_each_Inr_D [OF assms(1)] assms(2) by (rule list_all2_right_member)

lemma set_unique: "set (unique xs) = set xs"
  by (simp add: unique_def)

lemma engagement_level_Inactive: "engagement_level q d = ''Inactive'' \<longleftrightarrow> q = 0"
  by (simp add: engagement_level_def)

lemma engagement_record_Inr:
  assumes "engagement_record users month_events m uid = Inr r"
  shows "e_query_count r = length (filter (\<lambda>e. ev_user_id e = uid) month_events)
     \<and> e_engagement_level r = engagement_level (e_query_count r) (e_active_days r)"
proof (cases "iloc0 (filter (\<lambda>u. user_id u = uid) users)")
  case (Inl e)
  with assms show ?thesis
    by (simp add: engagement_record_def Let_def bindE_def)
next
  case U: (Inr ui)
  show ?thesis
  proof (cases "iloc0 (map ev_firm_id (filter (\<lambda>e. ev_user_id e = uid) month_events))")
    case (Inl e)
    with assms U show ?thesis
      by (simp add: engagement_record_def Let_def bindE_def)
  next
    case (Inr fid)
    with assms U show ?thesis
      by (auto simp add: engagement_record_def Let_def bindE_def)
  qed
qed

lemma engagement_data_rows:
  assumes "engagement_data users events = Inr data" and "r \<in> set data"
  shows "1 \<le> e_query_count r \<and> e_engagement_level r \<noteq> ''Inactive''"
proof -
  let ?inner = "\<lambda>m. let month_events = filter (\<lambda>e. month e = m) events
               in for_each (engagement_record users month_events m)
                    (unique (map ev_user_id month_events))"
  from assms(1) obtain chunks where
    chunks: "for_each ?inner (unique (map month events)) = Inr chunks"
    and data: "data = concat chunks"
    unfolding engagement_data_def bindE_Inr_iff by auto
  from assms(2) data obtain chunk where "chunk \<in> set chunks" and rc: "r \<in> set chunk"
    by auto
  with for_each_member [OF chunks] obtain m where "?inner m = Inr chunk" by blast
  then have "for_each (engagement_record users (filter (\<lambda>e. month e = m) events) m)
       (unique (map ev_user_id (filter (\<lambda>e. month e = m) events))) = Inr chunk"
    by (simp add: Let_def)
  from for_each_member [OF this rc] obtain uid where
    uid: "uid \<in> set (unique (map ev_user_id (filter (\<lambda>e. month e = m) events)))"
    and rec: "engagement_record users (filter (\<lambda>e. month e = m) events) m uid = Inr r"
    by blast
  from uid obtain e where "e \<in> set (filter (\<lambda>e. month e = m) events)" "ev_user_id e = uid"
    unfolding set_unique by auto
  then have "filter (\<lambda>e. ev_user_id e = uid) (filter (\<lambda>e. month e = m) events) \<noteq> []"
    unfolding filter_empty_conv by blast
  then have "1 \<le> length (filter (\<lambda>e. ev_user_id e = uid) (filter (\<lambda>e. month e = m) events))"
    by (simp add: Suc_le_eq)
  with engagement_record_Inr [OF rec] have q: "1 \<le> e_query_count r"
    and l: "e_engagement_level r = engagement_level (e_query_count r) (e_active_days r)"
    by simp_all
  from q have "engagement_level (e_query_count r) (e_active_days r) \<noteq> ''Inactive''"
    unfolding engagement_level_Inactive by simp
  with q l show ?thesis by simp
qed

section \<open>The engagement table\<close>

text \<open>
  C10. Every row of the per-user monthly engagement table has a query count of at least
  one, so its engagement level is never Inactive: a row is built only for a month and a
  user taken from the events of that month.
\<close>

theorem engagement_rows_are_never_inactive:
  assumes "snd (simulate_user_engagement users_df firms_df events_df) = Inr df"
  shows "\<forall>r \<in> set (rows df). 1 \<le> e_query_count r \<and> e_engagement_level r \<noteq> ''Inactive''"
proof
  fix r
  assume r: "r \<in> set (rows df)"
  from assms obtain data where
    data: "engagement_data
        (map (\<lambda>u. u\<lparr>user_created_date := to_datetime (user_created_date u)\<rparr>) (rows users_df))
        (map (\<lambda>e. event.extend e
                     (event_m.fields (to_period_M (to_datetime (event_created_at e)))))
           (rows events_df)) = Inr data"
    and df: "df = DataFrame engagement_columns data"
    unfolding simulate_user_engagement_def Let_def snd_conv bindE_Inr_iff
    by auto
  from r df have "r \<in> set data" by (simp add: DataFrame_def)
  with data show "1 \<le> e_query_count r \<and> e_engagement_level r \<noteq> ''Inactive''"
    by (rule engagement_data_rows)
qed

theorem engagement_rows_are_never_inactive_witness:
  "\<exists>df. snd (simulate_user_engagement sample_users sample_firms sample_events) = Inr df
      \<and> length (rows df) = 2
      \<and> (\<forall>r \<in> set (rows df). 1 \<le> e_query_count r \<and> e_engagement_level r \<noteq> ''Inactive'')"
proof -
  have "(case snd (simulate_user_engagement sample_users sample_firms sample_events)
           of Inl err \<Rightarrow> 0 | Inr df \<Rightarrow> length (rows df)) = 2"
    by code_simp
  then obtain df where df: "snd (simulate_user_engagement sample_users sample_firms
      sample_events) = Inr df" and len: "length (rows df) = 2"
    by (cases "snd (simulate_user_engagement sample_users sample_firms sample_events)")
      simp_all
  from engagement_rows_are_never_inactive [OF df] df len show ?thesis by blast
qed






section \<open>The input collections after a run\<close>




section \<open>Facts about the weekly series\<close>













section \<open>Week-over-week growth\<close>




lemma event_performance_record_segment:
  assumes "event_performance_record users firms ie = Inr r"
  shows "p_user_segment r = user_segment (p_user_tenure_days r)
     \<and> (\<exists>u \<in> set users. user_id u = ev_user_id (snd ie)
           \<and> p_user_tenure_days r
               = timedelta_days (event_created_at (snd ie)) (user_created_date u))"
proof (cases "iloc0 (filter (\<lambda>u. user_id u = ev_user_id (snd ie)) users)")
  case (Inl e)
  with assms show ?thesis
    by (simp add: event_performance_record_def Let_def bindE_def)
next
  case U: (Inr ui)
  from iloc0_filter_Inr [OF U] have ui: "ui \<in> set users" "user_id ui = ev_user_id (snd ie)"
    by simp_all
  show ?thesis
  proof (cases "iloc0 (filter (\<lambda>f. firm_id f = ev_firm_id (snd ie)) firms)")
    case (Inl e)
    with assms U show ?thesis
      by (simp add: event_performance_record_def Let_def bindE_def)
  next
    case (Inr fi)
    with assms U have "p_user_segment r = user_segment (p_user_tenure_days r)"
      and "p_user_tenure_days r
             = timedelta_days (event_created_at (snd ie)) (user_created_date ui)"
      by (auto simp add: event_performance_record_def Let_def bindE_def)
    with ui show ?thesis by blast
  qed
qed

section \<open>Threshold ladders in the derived rows\<close>

text \<open>
  C6. For all query counts and active-day counts, \<open>engagement_level\<close> is the first tier,
  in descending order, whose two conditions both hold: Power User from 50 queries and 15
  days, else Active User from 20 and 8, else Regular User from 5 and 3, else Occasional
  User from one query, else Inactive. It agrees with the tier table of the specification;
  (50, 15) is a Power User, (49, 15) falls to Active User, whose own condition holds, and
  (0, 0) is Inactive. Every engagement record carries the level of its own two counts.
\<close>

theorem engagement_level_tiers:
  "engagement_level q d = first_matching_tier q d
   \<and> (50 \<le> q \<and> 15 \<le> d \<longrightarrow> engagement_level q d = ''Power User'')
   \<and> (\<not> (50 \<le> q \<and> 15 \<le> d) \<and> 20 \<le> q \<and> 8 \<le> d \<longrightarrow> engagement_level q d = ''Active User'')
   \<and> (\<not> (20 \<le> q \<and> 8 \<le> d) \<and> 5 \<le> q \<and> 3 \<le> d \<longrightarrow> engagement_level q d = ''Regular User'')
   \<and> (\<not> (5 \<le> q \<and> 3 \<le> d) \<and> 1 \<le> q \<longrightarrow> engagement_level q d = ''Occasional User'')
   \<and> (q = 0 \<longrightarrow> engagement_level q d = ''Inactive'')
   \<and> engagement_level 50 15 = ''Power User''
   \<and> engagement_level 49 15 = ''Active User''
   \<and> engagement_level 0 0 = ''Inactive''
   \<and> (engagement_record users month_events m uid = Inr r \<longrightarrow>
        e_engagement_level r = engagement_level (e_query_count r) (e_active_days r))"
proof -
  have "engagement_level q d = first_matching_tier q d
   \<and> (50 \<le> q \<and> 15 \<le> d \<longrightarrow> engagement_level q d = ''Power User'')
   \<and> (\<not> (50 \<le> q \<and> 15 \<le> d) \<and> 20 \<le> q \<and> 8 \<le> d \<longrightarrow> engagement_level q d = ''Active User'')
   \<and> (\<not> (20 \<le> q \<and> 8 \<le> d) \<and> 5 \<le> q \<and> 3 \<le> d \<longrightarrow> engagement_level q d = ''Regular User'')
   \<and> (\<not> (5 \<le> q \<and> 3 \<le> d) \<and> 1 \<le> q \<longrightarrow> engagement_level q d = ''Occasional User'')
   \<and> (q = 0 \<longrightarrow> engagement_level q d = ''Inactive'')
   \<and> engagement_level 50 15 = ''Power User''
   \<and> engagement_level 49 15 = ''Active User''
   \<and> engagement_level 0 0 = ''Inactive''"
    by (simp add: engagement_level_def first_matching_tier_def engagement_tiers_def)
  with engagement_record_Inr [of users month_events m uid r] show ?thesis by blast
qed

theorem engagement_level_tiers_witness:
  "\<not> (50 \<le> (49::nat) \<and> 15 \<le> (20::nat)) \<and> 20 \<le> (49::nat) \<and> 8 \<le> (20::nat)
   \<and> engagement_level 49 20 = ''Active User''
   \<and> \<not> (5 \<le> (4::nat) \<and> 3 \<le> (20::nat)) \<and> 1 \<le> (4::nat)
   \<and> engagement_level 4 20 = ''Occasional User''"
proof -
  have a: "engagement_level 49 20 = ''Active User''"
    using engagement_level_tiers [of 49 20]
    by (simp add: first_matching_tier_def engagement_tiers_def)
  have b: "engagement_level 4 20 = ''Occasional User''"
    using engagement_level_tiers [of 4 20]
    by (simp add: first_matching_tier_def engagement_tiers_def)
  from a b show ?thesis by simp
qed

text \<open>
  C7. For every integer tenure, negative ones included, \<open>user_segment\<close> is New User up to
  7 days, Recent User above 7 and up to 30, Established User above 30 and up to 90, and
  Long-term User above 90. Every per-event record carries the segment of its own tenure,
  which is the whole number of days, rounded down, from the creation of the event's user
  to the event, whatever its sign.
\<close>

theorem user_segment_thresholds:
  "(t \<le> 7 \<longrightarrow> user_segment t = ''New User'')
   \<and> (7 < t \<and> t \<le> 30 \<longrightarrow> user_segment t = ''Recent User'')
   \<and> (30 < t \<and> t \<le> 90 \<longrightarrow> user_segment t = ''Established User'')
   \<and> (90 < t \<longrightarrow> user_segment t = ''Long-term User'')
   \<and> (event_performance_record users firms ie = Inr r \<longrightarrow>
        p_user_segment r = user_segment (p_user_tenure_days r)
        \<and> (\<exists>u \<in> set users. user_id u = ev_user_id (snd ie)
              \<and> p_user_tenure_days r
                  = timedelta_days (event_created_at (snd ie)) (user_created_date u)))"
proof -
  have "(t \<le> 7 \<longrightarrow> user_segment t = ''New User'')
   \<and> (7 < t \<and> t \<le> 30 \<longrightarrow> user_segment t = ''Recent User'')
   \<and> (30 < t \<and> t \<le> 90 \<longrightarrow> user_segment t = ''Established User'')
   \<and> (90 < t \<longrightarrow> user_segment t = ''Long-term User'')"
    by (simp add: user_segment_def)
  with event_performance_record_segment [of users firms ie r] show ?thesis by blast
qed

theorem user_segment_thresholds_witness:
  "(- 2::int) \<le> 7 \<and> user_segment (- 2) = ''New User''
   \<and> (7::int) < 30 \<and> (30::int) \<le> 30 \<and> user_segment 30 = ''Recent User''
   \<and> (30::int) < 31 \<and> (31::int) \<le> 90 \<and> user_segment 31 = ''Established User''
   \<and> (90::int) < 91 \<and> user_segment 91 = ''Long-term User''
   \<and> (\<exists>r. event_performance_record (rows sample_users) (rows sample_firms) early_event = Inr r
          \<and> p_user_tenure_days r = - 2 \<and> p_user_segment r = ''New User'')"
proof -
  have "(case event_performance_record (rows sample_users) (rows sample_firms) early_event of
           Inl err \<Rightarrow> None | Inr r \<Rightarrow> Some (p_user_tenure_days r)) = Some (- 2)"
    by code_simp
  then obtain r where
    r: "event_performance_record (rows sample_users) (rows sample_firms) early_event = Inr r"
    and t: "p_user_tenure_days r = - 2"
    by (cases "event_performance_record (rows sample_users) (rows sample_firms) early_event")
      simp_all
  from user_segment_thresholds [of "- 2" "rows sample_users" "rows sample_firms" early_event r]
    r t
  have "user_segment (- 2) = ''New User''" and "p_user_segment r = ''New User''"
    by simp_all
  with r t user_segment_thresholds [of 30] user_segment_thresholds [of 31]
    user_segment_thresholds [of 91]
  show ?thesis by simp
qed

end
